theory Spec2Isabelle
  imports Main "HOL-Library.AList" "HOL-Library.Sublist"
begin

section \<open>Values, exceptions and the policy document\<close>

text \<open>
  The payloads of \<^verbatim>\<open>lib/queues.py\<close> are decoded JSON: dictionaries, lists, strings, numbers,
  booleans and \<^verbatim>\<open>None\<close>. A dictionary is an association list read with \<open>map_of\<close>, written
  with \<open>AList.update\<close> and popped with \<open>AList.delete\<close>. JSON numbers are integers here.
\<close>

datatype json =
    JNull
  | JBool bool
  | JInt int
  | JStr string
  | JList "json list"
  | JDict "(string \<times> json) list"

text \<open>
  The exceptions are the subclasses of Python's \<^verbatim>\<open>Exception\<close>, which is what
  \<^verbatim>\<open>except Exception\<close> catches. \<open>ValueError\<close> carries the message template and the
  arguments of \<^verbatim>\<open>format\<close>.
\<close>

datatype error =
    ValueError string "json list"
  | KeyError json
  | TypeError
  | AttributeError
  | IndexError
  | HTTPError nat
  | NotImplementedError string
  | OtherException string

definition ebind :: "error + 'a \<Rightarrow> ('a \<Rightarrow> error + 'b) \<Rightarrow> error + 'b" where
  "ebind m f = (case m of Inl e \<Rightarrow> Inl e | Inr x \<Rightarrow> f x)"

text \<open>
  \<^verbatim>\<open>pulse_config['trees']\<close> maps a tree name to its entry
  \<^verbatim>\<open>{products, platforms, locales, blacklist: {locales}, tags}\<close>. The constructor stores
  \<^verbatim>\<open>pulse_config or {}\<close>, so the key \<^verbatim>\<open>'trees'\<close> may be absent: \<open>trees cfg = None\<close>.
\<close>

record tree_config =
  products :: "string list"
  platforms :: "string list"
  locales :: "string list"
  blacklist_locales :: "string list"
  tags :: "string list"

record pulse_config =
  trees :: "(string \<times> tree_config) list option"

text \<open>\<^verbatim>\<open>self.pulse_config['trees']\<close>\<close>

definition config_trees :: "pulse_config \<Rightarrow> error + (string \<times> tree_config) list" where
  "config_trees cfg =
     (case trees cfg of None \<Rightarrow> Inl (KeyError (JStr ''trees'')) | Some m \<Rightarrow> Inr m)"

text \<open>
  \<^verbatim>\<open>self.pulse_config['trees'][tree]\<close>: a missing key raises \<^verbatim>\<open>KeyError\<close>, a list or a
  dictionary used as a key raises \<^verbatim>\<open>TypeError\<close> (unhashable).
\<close>

definition tree_entry :: "(string \<times> tree_config) list \<Rightarrow> json \<Rightarrow> error + tree_config" where
  "tree_entry m tree =
     (case tree of
        JStr s \<Rightarrow> (case map_of m s of None \<Rightarrow> Inl (KeyError tree) | Some tc \<Rightarrow> Inr tc)
      | JList xs \<Rightarrow> Inl TypeError
      | JDict d \<Rightarrow> Inl TypeError
      | _ \<Rightarrow> Inl (KeyError tree))"

text \<open>\<^verbatim>\<open>x in names\<close> for a list of strings of the policy document.\<close>

definition py_in :: "json \<Rightarrow> string list \<Rightarrow> bool" where
  "py_in x names = (x \<in> set (map JStr names))"

text \<open>
  \<^verbatim>\<open>set(tags)\<close>: the elements of a list (all of them hashable), the characters of a
  string, the keys of a dictionary; anything else is not iterable.
\<close>

definition hashable :: "json \<Rightarrow> bool" where
  "hashable v = (case v of JList xs \<Rightarrow> False | JDict d \<Rightarrow> False | _ \<Rightarrow> True)"

definition py_set :: "json \<Rightarrow> error + json list" where
  "py_set v =
     (case v of
        JList xs \<Rightarrow> (if list_all hashable xs then Inr xs else Inl TypeError)
      | JStr s \<Rightarrow> Inr (map (\<lambda>c. JStr [c]) s)
      | JDict d \<Rightarrow> Inr (map (\<lambda>kv. JStr (fst kv)) d)
      | _ \<Rightarrow> Inl TypeError)"

subsection \<open>The validity checks of \<^verbatim>\<open>PulseQueue\<close>\<close>

definition is_valid_locale :: "pulse_config \<Rightarrow> json \<Rightarrow> json \<Rightarrow> error + bool" where
  "is_valid_locale cfg tree locale =
     ebind (config_trees cfg) (\<lambda>m.
     ebind (tree_entry m tree) (\<lambda>tc.
       let whitelist = locales tc;
           blacklist = blacklist_locales tc
       in Inr (\<not> py_in locale blacklist \<and> (whitelist = [] \<or> py_in locale whitelist))))"

definition is_valid_platform :: "pulse_config \<Rightarrow> json \<Rightarrow> json \<Rightarrow> error + bool" where
  "is_valid_platform cfg tree platform =
     ebind (config_trees cfg) (\<lambda>m.
     ebind (tree_entry m tree) (\<lambda>tc.
       Inr (platforms tc = [] \<or> py_in platform (platforms tc))))"

definition is_valid_product :: "pulse_config \<Rightarrow> json \<Rightarrow> json \<Rightarrow> error + bool" where
  "is_valid_product cfg tree product =
     ebind (config_trees cfg) (\<lambda>m.
     ebind (tree_entry m tree) (\<lambda>tc.
       Inr (products tc = [] \<or> py_in product (products tc))))"

definition is_valid_tree :: "pulse_config \<Rightarrow> json \<Rightarrow> error + bool" where
  "is_valid_tree cfg tree =
     ebind (config_trees cfg) (\<lambda>m.
       let keys = map fst m
       in Inr (keys = [] \<or> py_in tree keys))"

definition has_valid_tags :: "pulse_config \<Rightarrow> json \<Rightarrow> json \<Rightarrow> error + bool" where
  "has_valid_tags cfg tree tgs =
     ebind (config_trees cfg) (\<lambda>m.
     ebind (tree_entry m tree) (\<lambda>tc.
       let all_tags = tags tc
       in if all_tags = [] then Inr True
          else ebind (py_set tgs) (\<lambda>ts. Inr (set (map JStr all_tags) \<subseteq> set ts))))"


section \<open>Python operations on decoded JSON\<close>

text \<open>\<^verbatim>\<open>data[key]\<close> with a string key: only a dictionary can be read this way.\<close>

definition getitem :: "json \<Rightarrow> string \<Rightarrow> error + json" where
  "getitem v k =
     (case v of
        JDict d \<Rightarrow> (case map_of d k of None \<Rightarrow> Inl (KeyError (JStr k)) | Some x \<Rightarrow> Inr x)
      | _ \<Rightarrow> Inl TypeError)"

text \<open>\<^verbatim>\<open>data[key] = value\<close>\<close>

definition setitem :: "json \<Rightarrow> string \<Rightarrow> json \<Rightarrow> error + json" where
  "setitem v k x =
     (case v of
        JDict d \<Rightarrow> Inr (JDict (AList.update k x d))
      | _ \<Rightarrow> Inl TypeError)"

text \<open>\<^verbatim>\<open>data.get(key)\<close> and \<^verbatim>\<open>data.get(key, default)\<close>: a method of dictionaries only.\<close>

definition dict_get :: "json \<Rightarrow> string \<Rightarrow> json \<Rightarrow> error + json" where
  "dict_get v k dflt =
     (case v of
        JDict d \<Rightarrow> (case map_of d k of None \<Rightarrow> Inr dflt | Some x \<Rightarrow> Inr x)
      | _ \<Rightarrow> Inl AttributeError)"

text \<open>\<^verbatim>\<open>for x in v\<close>: the elements of a list, the characters of a string, the keys of a dictionary.\<close>

definition py_iter :: "json \<Rightarrow> error + json list" where
  "py_iter v =
     (case v of
        JList xs \<Rightarrow> Inr xs
      | JStr s \<Rightarrow> Inr (map (\<lambda>c. JStr [c]) s)
      | JDict d \<Rightarrow> Inr (map (\<lambda>kv. JStr (fst kv)) d)
      | _ \<Rightarrow> Inl TypeError)"

text \<open>\<^verbatim>\<open>key in v\<close> for a string key.\<close>

definition py_contains :: "json \<Rightarrow> string \<Rightarrow> error + bool" where
  "py_contains v k =
     (case v of
        JDict d \<Rightarrow> Inr (k \<in> set (map fst d))
      | JList xs \<Rightarrow> Inr (JStr k \<in> set xs)
      | JStr s \<Rightarrow> Inr (sublist k s)
      | _ \<Rightarrow> Inl TypeError)"

text \<open>\<^verbatim>\<open>s.lower()\<close> on ASCII letters; a value that is not a string has no such method.\<close>

definition lower_char :: "char \<Rightarrow> char" where
  "lower_char c =
     (case map_of (zip ''ABCDEFGHIJKLMNOPQRSTUVWXYZ'' ''abcdefghijklmnopqrstuvwxyz'') c of
        None \<Rightarrow> c
      | Some l \<Rightarrow> l)"

definition py_lower :: "json \<Rightarrow> error + json" where
  "py_lower v = (case v of JStr s \<Rightarrow> Inr (JStr (map lower_char s)) | _ \<Rightarrow> Inl AttributeError)"

text \<open>\<^verbatim>\<open>s.replace(old, new)\<close>: every occurrence, left to right, without overlap.\<close>

function replace :: "string \<Rightarrow> string \<Rightarrow> string \<Rightarrow> string" where
  "replace old new s =
     (if old = [] then (case s of [] \<Rightarrow> new | c # cs \<Rightarrow> new @ c # replace old new cs)
      else if prefix old s then new @ replace old new (drop (length old) s)
      else (case s of [] \<Rightarrow> [] | c # cs \<Rightarrow> c # replace old new cs))"
  by pat_completeness auto
termination
  by (relation "measure (\<lambda>(old, new, s). length s)") (auto simp: prefix_def)

declare replace.simps [simp del]

definition py_replace :: "json \<Rightarrow> string \<Rightarrow> string \<Rightarrow> error + string" where
  "py_replace v old new = (case v of JStr s \<Rightarrow> Inr (replace old new s) | _ \<Rightarrow> Inl AttributeError)"

text \<open>\<^verbatim>\<open>s.endswith(e)\<close>\<close>

definition py_endswith :: "json \<Rightarrow> string \<Rightarrow> error + bool" where
  "py_endswith v e = (case v of JStr s \<Rightarrow> Inr (suffix e s) | _ \<Rightarrow> Inl AttributeError)"

section \<open>The outside world\<close>

text \<open>
  What the code gets from libraries and from the network is a parameter of the model:
  \<^item> \<open>requests_get url timeout\<close> is \<^verbatim>\<open>requests.get(url, timeout=...)\<close>: it raises or returns
    a response, whose body may not be JSON (\<open>json_body = None\<close>);
  \<^item> \<open>py_str\<close> is Python's text for a value that is not a string, as \<^verbatim>\<open>format\<close> gives it;
  \<^item> \<open>funsize_cc_search\<close> and \<open>release_cc_search\<close> are \<^verbatim>\<open>cc_key_regex.search\<close> of the two
    task queues: the first returns the groups 0, \<^verbatim>\<open>tree\<close> and \<^verbatim>\<open>platform\<close> of a match;
  \<^item> \<open>buildUrl\<close> is \<^verbatim>\<open>taskcluster.client.Queue().buildUrl\<close>;
  \<^item> \<open>strptime_strftime\<close> is \<^verbatim>\<open>datetime.strptime(_, '%Y-%m-%dT%H:%M:%S.%fZ').strftime('%Y%m%d%H%M')\<close>.
\<close>

record response =
  status_code :: nat
  json_body :: "json option"

record env =
  requests_get :: "string \<Rightarrow> nat option \<Rightarrow> error + response"
  py_str :: "json \<Rightarrow> string"
  funsize_cc_search :: "json \<Rightarrow> error + (string \<times> string \<times> string) option"
  release_cc_search :: "json \<Rightarrow> error + bool"
  buildUrl :: "string \<Rightarrow> json list \<Rightarrow> error + string"
  strptime_strftime :: "json \<Rightarrow> error + string"

text \<open>An argument of \<^verbatim>\<open>'{}'.format(v)\<close> or \<^verbatim>\<open>'%s' % v\<close>.\<close>

definition format_arg :: "env \<Rightarrow> json \<Rightarrow> string" where
  "format_arg env v = (case v of JStr s \<Rightarrow> s | _ \<Rightarrow> py_str env v)"

text \<open>\<^verbatim>\<open>response.raise_for_status()\<close> raises on the statuses 400 to 599.\<close>

definition raise_for_status :: "response \<Rightarrow> error + unit" where
  "raise_for_status r =
     (if 400 \<le> status_code r \<and> status_code r < 600 then Inl (HTTPError (status_code r))
      else Inr ())"

text \<open>\<^verbatim>\<open>response.json()\<close> raises a \<^verbatim>\<open>ValueError\<close> on a body that is not JSON.\<close>

definition response_json :: "response \<Rightarrow> error + json" where
  "response_json r =
     (case json_body r of
        None \<Rightarrow> Inl (ValueError ''No JSON object could be decoded'' [])
      | Some j \<Rightarrow> Inr j)"

definition get_long_revision :: "env \<Rightarrow> json \<Rightarrow> json \<Rightarrow> error + json" where
  "get_long_revision env repo revision =
     (let repo' = (if repo \<noteq> JStr ''mozilla-central'' then ''releases/'' @ format_arg env repo
                   else format_arg env repo);
          url = ''https://hg.mozilla.org/'' @ repo' @ ''/json-rev/'' @ format_arg env revision
      in ebind (requests_get env url (Some 60)) (\<lambda>req.
         ebind (raise_for_status req) (\<lambda>u.
         ebind (response_json req) (\<lambda>j.
         getitem j ''node''))))"

section \<open>The state of a queue and the callback\<close>

text \<open>
  The callback is any stateful function of the keyword arguments that returns or raises.
  The state of a queue holds the callback's own state, the trace of the callback's
  invocations (the keyword arguments and what the call raised), the log and the
  acknowledged messages.
\<close>

datatype level = DEBUG | INFO | ERROR

datatype log_entry =
    Log level string "json list"
  | LogException string error

record message =
  headers :: "(string \<times> json) list"

type_synonym kwargs = "(string \<times> json) list"

record 's world =
  cb_state :: 's
  calls :: "(kwargs \<times> error option) list"
  logged :: "log_entry list"
  acks :: "message list"

type_synonym 's callback = "kwargs \<Rightarrow> 's \<Rightarrow> error option \<times> 's"

definition logger :: "log_entry \<Rightarrow> 's world \<Rightarrow> 's world" where
  "logger e w = w\<lparr>logged := logged w @ [e]\<rparr>"

text \<open>\<^verbatim>\<open>self.callback(**properties)\<close>\<close>

definition call_callback :: "'s callback \<Rightarrow> kwargs \<Rightarrow> 's world \<Rightarrow> (error + unit) \<times> 's world" where
  "call_callback cb props w =
     (case cb props (cb_state w) of
        (out, s') \<Rightarrow>
          ((case out of None \<Rightarrow> Inr () | Some e \<Rightarrow> Inl e),
           w\<lparr>cb_state := s', calls := calls w @ [(props, out)]\<rparr>))"

text \<open>The records whose callback returned.\<close>

definition emitted :: "'s world \<Rightarrow> kwargs list" where
  "emitted w = map fst (filter (\<lambda>c. snd c = None) (calls w))"

text \<open>\<^verbatim>\<open>if not <check>: raise ValueError(template.format(arg))\<close>\<close>

definition check :: "error + bool \<Rightarrow> string \<Rightarrow> json \<Rightarrow> error + unit" where
  "check r template arg =
     ebind r (\<lambda>ok. if ok then Inr () else Inl (ValueError template [arg]))"

text \<open>
  The handlers of a \<^verbatim>\<open>try\<close> around one element:
  \<^verbatim>\<open>except ValueError as e: self.logger.info(e.message)\<close>,
  \<^verbatim>\<open>except Exception: self.logger.exception(failure)\<close>.
\<close>

definition element_handler :: "string \<Rightarrow> error \<Rightarrow> 's world \<Rightarrow> 's world" where
  "element_handler failure e w =
     (case e of
        ValueError msg args \<Rightarrow> logger (Log INFO msg args) w
      | _ \<Rightarrow> logger (LogException failure e) w)"

section \<open>\<^verbatim>\<open>NormalizedBuildQueue\<close>\<close>

text \<open>
  \<^verbatim>\<open>_on_message\<close> up to the call of the callback, in the three parts of the source. First
  the five checks; the result is \<^verbatim>\<open>tree\<close>.
\<close>

definition NormalizedBuildQueue_checks :: "pulse_config \<Rightarrow> json \<Rightarrow> error + json" where
  "NormalizedBuildQueue_checks cfg data0 =
     ebind (getitem data0 ''tree'') (\<lambda>tree.
     ebind (check (is_valid_tree cfg tree)
              ''Cancel build request due to invalid tree: {}'' tree) (\<lambda>u.
     ebind (getitem data0 ''product'') (\<lambda>p.
     ebind (py_lower p) (\<lambda>product.
     ebind (check (is_valid_product cfg tree product)
              ''Cancel build request due to invalid product: {}'' product) (\<lambda>u.
     ebind (getitem data0 ''platform'') (\<lambda>platform.
     ebind (check (is_valid_platform cfg tree platform)
              ''Cancel build request due to invalid platform: {}'' platform) (\<lambda>u.
     ebind (getitem data0 ''tags'') (\<lambda>tgs.
     ebind (check (has_valid_tags cfg tree tgs)
              ''Cancel build request due to invalid tags: {}'' tgs) (\<lambda>u.
     ebind (getitem data0 ''locale'') (\<lambda>locale.
     ebind (check (is_valid_locale cfg tree locale)
              ''Cancel build request due to invalid locale: {}'' locale) (\<lambda>u.
     Inr tree)))))))))))"

text \<open>
  Then the two assignments, \<^verbatim>\<open>data['branch'] = tree.replace('release-', '')\<close> and
  \<^verbatim>\<open>data['repo'] = 'http://hg.mozilla.org/{}{}'.format(...)\<close>; the result is \<^verbatim>\<open>data\<close> after them.
\<close>

definition NormalizedBuildQueue_assign :: "env \<Rightarrow> json \<Rightarrow> json \<Rightarrow> error + json" where
  "NormalizedBuildQueue_assign env tree data0 =
     ebind (py_replace tree ''release-'' []) (\<lambda>branch.
     ebind (setitem data0 ''branch'' (JStr branch)) (\<lambda>data1.
     ebind (py_endswith tree ''-central'') (\<lambda>central.
     ebind (getitem data1 ''branch'') (\<lambda>b.
     setitem data1 ''repo''
       (JStr (''http://hg.mozilla.org/'' @ (if \<not> central then ''releases/'' else [])
                @ format_arg env b))))))"

text \<open>Then the dictionary \<^verbatim>\<open>build_properties\<close>, its values evaluated in the order of the source.\<close>

definition NormalizedBuildQueue_dict :: "env \<Rightarrow> json \<Rightarrow> json \<Rightarrow> error + kwargs" where
  "NormalizedBuildQueue_dict env tree data =
     ebind (getitem data ''branch'') (\<lambda>v_branch.
     ebind (getitem data ''buildid'') (\<lambda>v_buildid.
     ebind (dict_get data ''build_number'' JNull) (\<lambda>v_build_number.
     ebind (getitem data ''locale'') (\<lambda>l.
     ebind (if l = JStr ''en-US'' then getitem data ''buildurl'' else Inr JNull) (\<lambda>v_build_url.
     ebind (getitem data ''locale'') (\<lambda>v_locale.
     ebind (getitem data ''platform'') (\<lambda>v_platform.
     ebind (getitem data ''product'') (\<lambda>p'.
     ebind (py_lower p') (\<lambda>v_product.
     ebind (getitem data ''repo'') (\<lambda>v_repository.
     ebind (getitem data ''revision'') (\<lambda>r.
     ebind (get_long_revision env tree r) (\<lambda>v_revision.
     ebind (getitem data ''status'') (\<lambda>v_status.
     ebind (getitem data ''tags'') (\<lambda>v_tags.
     ebind (getitem data ''test_packages_url'') (\<lambda>v_test_packages_url.
     ebind (getitem data ''tree'') (\<lambda>v_tree.
     ebind (getitem data ''version'') (\<lambda>v_version.
     Inr [(''allowed_testruns'', JList [JStr ''functional'']),
          (''branch'', v_branch),
          (''buildid'', v_buildid),
          (''build_number'', v_build_number),
          (''build_url'', v_build_url),
          (''locale'', v_locale),
          (''platform'', v_platform),
          (''product'', v_product),
          (''repository'', v_repository),
          (''revision'', v_revision),
          (''status'', v_status),
          (''tags'', v_tags),
          (''test_packages_url'', v_test_packages_url),
          (''tree'', v_tree),
          (''version'', v_version),
          (''raw_json'', data)]
     )))))))))))))))))"

definition NormalizedBuildQueue_build_properties ::
  "env \<Rightarrow> pulse_config \<Rightarrow> json \<Rightarrow> error + kwargs" where
  "NormalizedBuildQueue_build_properties env cfg data0 =
     ebind (NormalizedBuildQueue_checks cfg data0) (\<lambda>tree.
     ebind (NormalizedBuildQueue_assign env tree data0) (\<lambda>data.
     NormalizedBuildQueue_dict env tree data))"

definition NormalizedBuildQueue_on_message ::
  "env \<Rightarrow> pulse_config \<Rightarrow> 's callback \<Rightarrow> json \<Rightarrow> 's world \<Rightarrow> (error + unit) \<times> 's world" where
  "NormalizedBuildQueue_on_message env cfg cb data w =
     (case NormalizedBuildQueue_build_properties env cfg data of
        Inl e \<Rightarrow> (Inl e, w)
      | Inr props \<Rightarrow> call_callback cb props w)"

text \<open>\<^verbatim>\<open>_preprocess_message\<close>: \<^verbatim>\<open>body.get('payload', body)\<close>\<close>

definition NormalizedBuildQueue_preprocess_message :: "json \<Rightarrow> error + json" where
  "NormalizedBuildQueue_preprocess_message body = dict_get body ''payload'' body"

section \<open>\<^verbatim>\<open>FunsizeTaskCompletedQueue\<close>\<close>

text \<open>The body of the \<^verbatim>\<open>try\<close> of one update, up to the call of the callback.\<close>

definition FunsizeTaskCompletedQueue_update_properties ::
  "pulse_config \<Rightarrow> json \<Rightarrow> error + kwargs" where
  "FunsizeTaskCompletedQueue_update_properties cfg update =
     ebind (getitem update ''branch'') (\<lambda>tree.
     ebind (check (is_valid_tree cfg tree)
              ''Cancel update request due to invalid tree: {}'' tree) (\<lambda>u.
     ebind (getitem update ''appName'') (\<lambda>a.
     ebind (py_lower a) (\<lambda>product.
     ebind (check (is_valid_product cfg tree product)
              ''Cancel update request due to invalid product: {}'' product) (\<lambda>u.
     ebind (getitem update ''platform'') (\<lambda>platform.
     ebind (check (is_valid_platform cfg tree platform)
              ''Cancel update request due to invalid platform: {}'' platform) (\<lambda>u.
     ebind (getitem update ''locale'') (\<lambda>locale.
     ebind (check (is_valid_locale cfg tree locale)
              ''Cancel update request due to invalid locale: {}'' locale) (\<lambda>u.
     ebind (getitem update ''branch'') (\<lambda>v_branch.
     ebind (getitem update ''from_buildid'') (\<lambda>v_buildid.
     ebind (getitem update ''locale'') (\<lambda>v_locale.
     ebind (getitem update ''platform'') (\<lambda>v_platform.
     ebind (getitem update ''appName'') (\<lambda>a'.
     ebind (py_lower a') (\<lambda>v_product.
     ebind (getitem update ''repo'') (\<lambda>v_repository.
     ebind (getitem update ''revision'') (\<lambda>v_revision.
     ebind (getitem update ''to_buildid'') (\<lambda>v_target_buildid.
     ebind (getitem update ''version'') (\<lambda>v_target_version.
     ebind (getitem update ''branch'') (\<lambda>v_tree.
     ebind (getitem update ''update_number'') (\<lambda>v_update_number.
     Inr [(''allowed_testruns'', JList [JStr ''update'']),
          (''branch'', v_branch),
          (''buildid'', v_buildid),
          (''locale'', v_locale),
          (''platform'', v_platform),
          (''product'', v_product),
          (''repository'', v_repository),
          (''revision'', v_revision),
          (''target_buildid'', v_target_buildid),
          (''target_version'', v_target_version),
          (''tree'', v_tree),
          (''update_number'', v_update_number),
          (''raw_json'', update)]
     )))))))))))))))))))))"

text \<open>One turn of \<^verbatim>\<open>for update in data\<close>: the \<^verbatim>\<open>try\<close> and its two handlers.\<close>

definition FunsizeTaskCompletedQueue_handle_update ::
  "pulse_config \<Rightarrow> 's callback \<Rightarrow> json \<Rightarrow> 's world \<Rightarrow> 's world" where
  "FunsizeTaskCompletedQueue_handle_update cfg cb update w =
     (case FunsizeTaskCompletedQueue_update_properties cfg update of
        Inl e \<Rightarrow> element_handler ''Failed to process update message.'' e w
      | Inr props \<Rightarrow>
          (case call_callback cb props w of
             (Inl e, w') \<Rightarrow> element_handler ''Failed to process update message.'' e w'
           | (Inr u, w') \<Rightarrow> w'))"

fun FunsizeTaskCompletedQueue_updates ::
  "pulse_config \<Rightarrow> 's callback \<Rightarrow> json list \<Rightarrow> 's world \<Rightarrow> 's world" where
  "FunsizeTaskCompletedQueue_updates cfg cb [] w = w"
| "FunsizeTaskCompletedQueue_updates cfg cb (update # rest) w =
     FunsizeTaskCompletedQueue_updates cfg cb rest
       (FunsizeTaskCompletedQueue_handle_update cfg cb update w)"

text \<open>
  \<^verbatim>\<open>_on_message\<close>: a dictionary is wrapped into a list of one element; a value that cannot be
  iterated raises out of the method.
\<close>

definition FunsizeTaskCompletedQueue_on_message ::
  "pulse_config \<Rightarrow> 's callback \<Rightarrow> json \<Rightarrow> 's world \<Rightarrow> (error + unit) \<times> 's world" where
  "FunsizeTaskCompletedQueue_on_message cfg cb data0 w =
     (let data = (case data0 of JDict d \<Rightarrow> JList [data0] | _ \<Rightarrow> data0)
      in case py_iter data of
           Inl e \<Rightarrow> (Inl e, w)
         | Inr updates \<Rightarrow> (Inr (), FunsizeTaskCompletedQueue_updates cfg cb updates w))"

section \<open>\<^verbatim>\<open>ReleaseTaskCompletedQueue\<close>\<close>

text \<open>
  \<^verbatim>\<open>_handle_locale(locale)\<close> reads \<^verbatim>\<open>tree\<close> and the dictionary \<^verbatim>\<open>data\<close> of the enclosing call
  as they are when it runs. First the body of its \<^verbatim>\<open>try\<close> up to the call of the callback.
\<close>

definition ReleaseTaskCompletedQueue_build_properties ::
  "pulse_config \<Rightarrow> json \<Rightarrow> (string \<times> json) list \<Rightarrow> json \<Rightarrow> error + kwargs" where
  "ReleaseTaskCompletedQueue_build_properties cfg tree d locale =
     ebind (check (is_valid_locale cfg tree locale)
              ''Cancel build request due to invalid locale: {}'' locale) (\<lambda>u.
     ebind (getitem (JDict d) ''branch'') (\<lambda>v_branch.
     ebind (getitem (JDict d) ''buildid'') (\<lambda>v_buildid.
     ebind (getitem (JDict d) ''platform'') (\<lambda>v_platform.
     ebind (getitem (JDict d) ''product'') (\<lambda>v_product.
     ebind (getitem (JDict d) ''revision'') (\<lambda>v_revision.
     ebind (getitem (JDict d) ''version'') (\<lambda>v_version.
     Inr [(''allowed_testruns'', JList [JStr ''functional'']),
          (''branch'', v_branch),
          (''buildid'', v_buildid),
          (''locale'', locale),
          (''platform'', v_platform),
          (''product'', v_product),
          (''revision'', v_revision),
          (''tree'', tree),
          (''version'', v_version),
          (''raw_json'', JDict d)]
     )))))))"

definition handle_locale ::
  "pulse_config \<Rightarrow> 's callback \<Rightarrow> json \<Rightarrow> (string \<times> json) list \<Rightarrow> json \<Rightarrow> 's world \<Rightarrow> 's world" where
  "handle_locale cfg cb tree d locale w =
     (case ReleaseTaskCompletedQueue_build_properties cfg tree d locale of
        Inl e \<Rightarrow> element_handler ''Failed to process beetmover message.'' e w
      | Inr props \<Rightarrow>
          (case call_callback cb props w of
             (Inl e, w') \<Rightarrow> element_handler ''Failed to process beetmover message.'' e w'
           | (Inr u, w') \<Rightarrow> w'))"

text \<open>
  \<^verbatim>\<open>for locale in data.pop('locales', []): data['locale'] = locale; _handle_locale(locale)\<close>,
  on the dictionary left by the \<^verbatim>\<open>pop\<close>.
\<close>

fun ReleaseTaskCompletedQueue_locales ::
  "pulse_config \<Rightarrow> 's callback \<Rightarrow> json \<Rightarrow> (string \<times> json) list \<Rightarrow> json list \<Rightarrow> 's world \<Rightarrow> 's world" where
  "ReleaseTaskCompletedQueue_locales cfg cb tree d [] w = w"
| "ReleaseTaskCompletedQueue_locales cfg cb tree d (locale # rest) w =
     (let d' = AList.update ''locale'' locale d
      in ReleaseTaskCompletedQueue_locales cfg cb tree d' rest
           (handle_locale cfg cb tree d' locale w))"

text \<open>The three checks at the head of \<^verbatim>\<open>_on_message\<close>; the result is \<^verbatim>\<open>tree\<close>.\<close>

definition ReleaseTaskCompletedQueue_checks :: "pulse_config \<Rightarrow> json \<Rightarrow> error + json" where
  "ReleaseTaskCompletedQueue_checks cfg data =
     ebind (getitem data ''tree'') (\<lambda>tree.
     ebind (check (is_valid_tree cfg tree)
              ''Cancel build request due to invalid tree: {}'' tree) (\<lambda>u.
     ebind (getitem data ''product'') (\<lambda>p.
     ebind (py_lower p) (\<lambda>product.
     ebind (check (is_valid_product cfg tree product)
              ''Cancel build request due to invalid product: {}'' product) (\<lambda>u.
     ebind (getitem data ''platform'') (\<lambda>platform.
     ebind (check (is_valid_platform cfg tree platform)
              ''Cancel build request due to invalid platform: {}'' platform) (\<lambda>u.
     Inr tree)))))))"

text \<open>
  \<^verbatim>\<open>_on_message\<close>. Once the checks have passed \<^verbatim>\<open>data\<close> is a dictionary (\<^verbatim>\<open>data['tree']\<close> has
  been read), so \<^verbatim>\<open>'locale' in data\<close> is a test of its keys.
\<close>

definition ReleaseTaskCompletedQueue_on_message ::
  "pulse_config \<Rightarrow> 's callback \<Rightarrow> json \<Rightarrow> 's world \<Rightarrow> (error + unit) \<times> 's world" where
  "ReleaseTaskCompletedQueue_on_message cfg cb data w =
     (case ReleaseTaskCompletedQueue_checks cfg data of
        Inl e \<Rightarrow> (Inl e, w)
      | Inr tree \<Rightarrow>
          (case data of
             JDict d \<Rightarrow>
               (case map_of d ''locale'' of
                  Some locale \<Rightarrow> (Inr (), handle_locale cfg cb tree d locale w)
                | None \<Rightarrow>
                    (case py_iter (case map_of d ''locales'' of None \<Rightarrow> JList [] | Some v \<Rightarrow> v) of
                       Inl e \<Rightarrow> (Inl e, w)
                     | Inr ls \<Rightarrow>
                         (Inr (),
                          ReleaseTaskCompletedQueue_locales cfg cb tree
                            (AList.delete ''locales'' d) ls w)))
           | _ \<Rightarrow> (Inl TypeError, w)))"


section \<open>Preprocessing of the task queues\<close>

text \<open>
  The handlers of the \<^verbatim>\<open>try\<close> around one routing key of \<^verbatim>\<open>message.headers['CC']\<close>:
  \<^verbatim>\<open>except ValueError: raise\<close>, and a bare \<^verbatim>\<open>except:\<close> that logs and goes on.
\<close>

definition routing_key_handler :: "error \<Rightarrow> 's world \<Rightarrow> (error + unit) \<times> 's world" where
  "routing_key_handler e w =
     (case e of
        ValueError msg args \<Rightarrow> (Inl e, w)
      | _ \<Rightarrow> (Inr (), logger (LogException ''Failed to preprocess the message.'' e) w))"

definition FunsizeTaskCompletedQueue_routing_key ::
  "env \<Rightarrow> pulse_config \<Rightarrow> json \<Rightarrow> 's world \<Rightarrow> (error + unit) \<times> 's world" where
  "FunsizeTaskCompletedQueue_routing_key env cfg routing_key w =
     (case funsize_cc_search env routing_key of
        Inl e \<Rightarrow> routing_key_handler e w
      | Inr None \<Rightarrow> (Inr (), w)
      | Inr (Some (group0, tree, platform)) \<Rightarrow>
          (let w1 = logger (Log DEBUG ''Found routing key: {}'' [JStr group0]) w
           in case ebind (check (is_valid_tree cfg (JStr tree))
                            ''Cancel update request due to invalid tree: {}'' (JStr tree)) (\<lambda>u.
                   check (is_valid_platform cfg (JStr tree) (JStr platform))
                     ''Cancel update request due to invalid platform: {}'' (JStr platform)) of
                Inl e \<Rightarrow> routing_key_handler e w1
              | Inr u \<Rightarrow> (Inr (), w1)))"

fun FunsizeTaskCompletedQueue_routing_keys ::
  "env \<Rightarrow> pulse_config \<Rightarrow> json list \<Rightarrow> 's world \<Rightarrow> (error + unit) \<times> 's world" where
  "FunsizeTaskCompletedQueue_routing_keys env cfg [] w = (Inr (), w)"
| "FunsizeTaskCompletedQueue_routing_keys env cfg (routing_key # rest) w =
     (case FunsizeTaskCompletedQueue_routing_key env cfg routing_key w of
        (Inl e, w') \<Rightarrow> (Inl e, w')
      | (Inr u, w') \<Rightarrow> FunsizeTaskCompletedQueue_routing_keys env cfg rest w')"

text \<open>\<^verbatim>\<open>message.headers['CC']\<close>, iterated.\<close>

definition headers_CC :: "message \<Rightarrow> error + json" where
  "headers_CC m = getitem (JDict (headers m)) ''CC''"

definition FunsizeTaskCompletedQueue_preprocess_message ::
  "env \<Rightarrow> pulse_config \<Rightarrow> json \<Rightarrow> message option \<Rightarrow> 's world \<Rightarrow> (error + json) \<times> 's world" where
  "FunsizeTaskCompletedQueue_preprocess_message env cfg body message w =
     (case (case message of
              None \<Rightarrow> (Inr (), w)
            | Some m \<Rightarrow>
                (case ebind (headers_CC m) py_iter of
                   Inl e \<Rightarrow> (Inl e, w)
                 | Inr ks \<Rightarrow> FunsizeTaskCompletedQueue_routing_keys env cfg ks w)) of
        (Inl e, w1) \<Rightarrow> (Inl e, w1)
      | (Inr u, w1) \<Rightarrow>
          (case py_contains body ''workerId'' of
             Inl e \<Rightarrow> (Inl e, w1)
           | Inr has \<Rightarrow>
               if \<not> has then (Inr body, w1)
               else
                 (case ebind (getitem body ''status'') (\<lambda>st.
                       ebind (getitem st ''taskId'') (\<lambda>task_id.
                       ebind (buildUrl env ''getLatestArtifact''
                                [task_id, JStr ''public/env/manifest.json'']) (\<lambda>url.
                       ebind (requests_get env url None) (\<lambda>response.
                       ebind (raise_for_status response) (\<lambda>u.
                       response_json response))))) of
                    Inl e \<Rightarrow> (Inl e, w1)
                  | Inr manifest \<Rightarrow>
                      (Inr manifest,
                       logger (Log DEBUG ''Received update manifest: {}'' [manifest]) w1))))"

text \<open>\<^verbatim>\<open>[self.cc_key_regex.search(key) for key in message.headers['CC']]\<close>\<close>

fun release_searches :: "env \<Rightarrow> json list \<Rightarrow> error + bool list" where
  "release_searches env [] = Inr []"
| "release_searches env (k # ks) =
     ebind (release_cc_search env k) (\<lambda>b.
     ebind (release_searches env ks) (\<lambda>bs. Inr (b # bs)))"

text \<open>\<^verbatim>\<open>v[-1]\<close>\<close>

definition py_last :: "json \<Rightarrow> error + json" where
  "py_last v =
     (case v of
        JList xs \<Rightarrow> (if xs = [] then Inl IndexError else Inr (last xs))
      | JStr s \<Rightarrow> (if s = [] then Inl IndexError else Inr (JStr [last s]))
      | JDict d \<Rightarrow> Inl (KeyError (JInt (- 1)))
      | _ \<Rightarrow> Inl TypeError)"

text \<open>
  The inner \<^verbatim>\<open>try\<close> with \<^verbatim>\<open>except: pass\<close>: the build id of the last run's schedule time is
  stored when everything on the way succeeds, and nothing happens otherwise.
\<close>

definition scheduled_buildid :: "env \<Rightarrow> json \<Rightarrow> json \<Rightarrow> json" where
  "scheduled_buildid env body manifest =
     (case ebind (getitem body ''status'') (\<lambda>st.
           ebind (getitem st ''runs'') (\<lambda>runs.
           ebind (py_last runs) (\<lambda>run.
           ebind (getitem run ''scheduled'') (\<lambda>scheduled.
           ebind (strptime_strftime env scheduled) (\<lambda>buildid.
           setitem manifest ''buildid'' (JStr buildid)))))) of
        Inl e \<Rightarrow> manifest
      | Inr manifest' \<Rightarrow> manifest')"

definition ReleaseTaskCompletedQueue_preprocess_message ::
  "env \<Rightarrow> json \<Rightarrow> message option \<Rightarrow> 's world \<Rightarrow> (error + json) \<times> 's world" where
  "ReleaseTaskCompletedQueue_preprocess_message env body message w =
     (case (case message of
              None \<Rightarrow> (Inr (), w)
            | Some m \<Rightarrow>
                (case headers_CC m of
                   Inl e \<Rightarrow> (Inl e, w)
                 | Inr cc \<Rightarrow>
                     (let w1 = logger (Log DEBUG ''CC routing keys: %s'' [cc]) w
                      in case ebind (py_iter cc) (release_searches env) of
                           Inl e \<Rightarrow> (Inl e, w1)
                         | Inr found \<Rightarrow>
                             if \<not> (True \<in> set found)
                             then (Inl (ValueError
                                     ''Routing keys do not match. Skipping message.'' []), w1)
                             else (Inr (), w1)))) of
        (Inl e, w1) \<Rightarrow> (Inl e, w1)
      | (Inr u, w1) \<Rightarrow>
          (case py_contains body ''workerId'' of
             Inl e \<Rightarrow> (Inl e, w1)
           | Inr has \<Rightarrow>
               if \<not> has then (Inr body, w1)
               else
                 (ebind (getitem body ''status'') (\<lambda>st.
                  ebind (getitem st ''taskId'') (\<lambda>task_id.
                  ebind (buildUrl env ''task'' [task_id]) (\<lambda>url.
                  ebind (requests_get env url None) (\<lambda>response.
                  ebind (raise_for_status response) (\<lambda>u.
                  ebind (response_json response) (\<lambda>j.
                  ebind (dict_get j ''extra'' (JDict [])) (\<lambda>extra.
                  ebind (dict_get extra ''build_props'' JNull) (\<lambda>manifest0.
                  ebind (getitem manifest0 ''branch'') (\<lambda>b.
                  ebind (setitem manifest0 ''tree'' (JStr (''release-'' @ format_arg env b)))
                    (\<lambda>manifest1.
                  ebind (setitem manifest1 ''product'' (JStr ''firefox'')) (\<lambda>manifest2.
                  Inr (scheduled_buildid env body manifest2)))))))))))),
                  w1)))"

section \<open>\<^verbatim>\<open>PulseQueue.process_message\<close>\<close>

text \<open>
  The classes of queues. The two methods that \<^verbatim>\<open>PulseQueue\<close> leaves to its subclasses are
  selected by the class; \<^verbatim>\<open>PulseQueue\<close> itself raises \<^verbatim>\<open>NotImplementedError\<close> in both.
\<close>

datatype family =
    PulseQueue
  | NormalizedBuildQueue
  | FunsizeTaskCompletedQueue
  | ReleaseTaskCompletedQueue

fun routing_key :: "family \<Rightarrow> string" where
  "routing_key PulseQueue = []"
| "routing_key NormalizedBuildQueue = ''build.#''"
| "routing_key FunsizeTaskCompletedQueue = ''#.funsize-balrog.#''"
| "routing_key ReleaseTaskCompletedQueue = ''route.index.releases.v1.#''"

fun preprocess_message ::
  "family \<Rightarrow> env \<Rightarrow> pulse_config \<Rightarrow> json \<Rightarrow> message option \<Rightarrow> 's world
     \<Rightarrow> (error + json) \<times> 's world" where
  "preprocess_message PulseQueue env cfg body message w =
     (Inl (NotImplementedError ''Method has to be implemented in subclass.''), w)"
| "preprocess_message NormalizedBuildQueue env cfg body message w =
     (NormalizedBuildQueue_preprocess_message body, w)"
| "preprocess_message FunsizeTaskCompletedQueue env cfg body message w =
     FunsizeTaskCompletedQueue_preprocess_message env cfg body message w"
| "preprocess_message ReleaseTaskCompletedQueue env cfg body message w =
     ReleaseTaskCompletedQueue_preprocess_message env body message w"

fun on_message ::
  "family \<Rightarrow> env \<Rightarrow> pulse_config \<Rightarrow> 's callback \<Rightarrow> json \<Rightarrow> 's world
     \<Rightarrow> (error + unit) \<times> 's world" where
  "on_message PulseQueue env cfg cb data w =
     (Inl (NotImplementedError ''Method has to be implemented in subclass.''), w)"
| "on_message NormalizedBuildQueue env cfg cb data w =
     NormalizedBuildQueue_on_message env cfg cb data w"
| "on_message FunsizeTaskCompletedQueue env cfg cb data w =
     FunsizeTaskCompletedQueue_on_message cfg cb data w"
| "on_message ReleaseTaskCompletedQueue env cfg cb data w =
     ReleaseTaskCompletedQueue_on_message cfg cb data w"

text \<open>The body of the \<^verbatim>\<open>try\<close>: the debug line, then the two stages.\<close>

definition handle_message ::
  "family \<Rightarrow> env \<Rightarrow> pulse_config \<Rightarrow> 's callback \<Rightarrow> json \<Rightarrow> message option \<Rightarrow> 's world
     \<Rightarrow> (error + unit) \<times> 's world" where
  "handle_message q env cfg cb body message w =
     (let w0 = logger (Log DEBUG ''Received message for routing key {}: {}''
                         [JStr (routing_key q), body]) w
      in case preprocess_message q env cfg body message w0 of
           (Inl e, w1) \<Rightarrow> (Inl e, w1)
         | (Inr preprocessed_body, w1) \<Rightarrow> on_message q env cfg cb preprocessed_body w1)"

text \<open>
  \<^verbatim>\<open>except ValueError as e: self.logger.debug(e.message)\<close> and
  \<^verbatim>\<open>except Exception: self.logger.exception(...)\<close>: neither raises again.
\<close>

definition process_handler :: "error \<Rightarrow> 's world \<Rightarrow> 's world" where
  "process_handler e w =
     (case e of
        ValueError msg args \<Rightarrow> logger (Log DEBUG msg args) w
      | _ \<Rightarrow> logger (LogException ''Failed to process Mozilla Pulse message.'' e) w)"

text \<open>\<^verbatim>\<open>finally: if message: message.ack()\<close>\<close>

definition ack :: "message option \<Rightarrow> 's world \<Rightarrow> 's world" where
  "ack message w = (case message of None \<Rightarrow> w | Some m \<Rightarrow> w\<lparr>acks := acks w @ [m]\<rparr>)"

definition process_message ::
  "family \<Rightarrow> env \<Rightarrow> pulse_config \<Rightarrow> 's callback \<Rightarrow> json \<Rightarrow> message option \<Rightarrow> 's world
     \<Rightarrow> (error + unit) \<times> 's world" where
  "process_message q env cfg cb body message w =
     (case handle_message q env cfg cb body message w of
        (Inl e, w1) \<Rightarrow> (Inr (), ack message (process_handler e w1))
      | (Inr u, w1) \<Rightarrow> (Inr (), ack message w1))"


section \<open>Example values\<close>

text \<open>A policy document with one tree, and values built on it, for the concrete runs below.\<close>

definition example_entry :: tree_config where
  "example_entry =
     \<lparr>products = [''firefox''], platforms = [''linux64'', ''win32''],
      locales = [''en-US''], blacklist_locales = [''ja''], tags = []\<rparr>"

definition example_config :: pulse_config where
  "example_config = \<lparr>trees = Some [(''mozilla-central'', example_entry)]\<rparr>"

definition example_env :: env where
  "example_env =
     \<lparr>requests_get = (\<lambda>url timeout.
        if timeout = Some 60
           \<and> url = ''https://hg.mozilla.org/releases/mozilla-beta/json-rev/59f372c35b24''
        then Inr \<lparr>status_code = 200,
                  json_body = Some (JDict [(''node'',
                                JStr ''59f372c35b2416ac84d6572d64c49227481a8a6c'')])\<rparr>
        else if timeout = Some 60
           \<and> url = ''https://hg.mozilla.org/mozilla-central/json-rev/0123456789ab''
        then Inr \<lparr>status_code = 200,
                  json_body = Some (JDict [(''node'',
                                JStr ''0123456789abcdef0123456789abcdef01234567'')])\<rparr>
        else if url = ''https://hg.mozilla.org/releases/mozilla-aurora/json-rev/0123456789ab''
        then Inr \<lparr>status_code = 200, json_body = None\<rparr>
        else Inr \<lparr>status_code = 404, json_body = None\<rparr>),
      py_str = (\<lambda>v. ''?''),
      funsize_cc_search = (\<lambda>k. Inr None),
      release_cc_search = (\<lambda>k. Inr False),
      buildUrl = (\<lambda>name args. Inl (OtherException ''no taskcluster'')),
      strptime_strftime = (\<lambda>v. Inl (ValueError ''time data does not match format'' []))\<rparr>"

definition example_release :: "(string \<times> json) list" where
  "example_release =
     [(''tree'', JStr ''mozilla-central''),
      (''product'', JStr ''Firefox''),
      (''platform'', JStr ''linux64''),
      (''branch'', JStr ''mozilla-central''),
      (''buildid'', JStr ''20161104030204''),
      (''revision'', JStr ''0123456789abcdef0123456789abcdef01234567''),
      (''version'', JStr ''52.0a1'')]"

definition example_update :: "(string \<times> json) list" where
  "example_update =
     [(''branch'', JStr ''mozilla-central''),
      (''appName'', JStr ''Firefox''),
      (''platform'', JStr ''win32''),
      (''locale'', JStr ''en-US''),
      (''from_buildid'', JStr ''20161103030204''),
      (''to_buildid'', JStr ''20161104030204''),
      (''repo'', JStr ''https://hg.mozilla.org/mozilla-central''),
      (''revision'', JStr ''0123456789abcdef0123456789abcdef01234567''),
      (''version'', JStr ''52.0a1''),
      (''update_number'', JInt 1)]"

text \<open>A callback that accepts every record, and one that rejects every record.\<close>

definition accepting_callback :: "unit callback" where
  "accepting_callback props s = (None, s)"

definition raising_callback :: "unit callback" where
  "raising_callback props s = (Some TypeError, s)"

definition empty_world :: "unit world" where
  "empty_world = \<lparr>cb_state = (), calls = [], logged = [], acks = []\<rparr>"

definition example_release_locales :: "(string \<times> json) list" where
  "example_release_locales =
     example_release @ [(''locales'', JList [JStr ''en-US'', JStr ''xx-INVALID''])]"

text \<open>A policy with a wildcard for locales and a required tag, and a build message for it.\<close>

definition example_build_config :: pulse_config where
  "example_build_config =
     \<lparr>trees = Some [(''mozilla-central'',
        \<lparr>products = [''firefox''], platforms = [''linux64''], locales = [],
         blacklist_locales = [''ja''], tags = [''nightly'']\<rparr>)]\<rparr>"

definition example_build :: "(string \<times> json) list" where
  "example_build =
     [(''tree'', JStr ''mozilla-central''),
      (''product'', JStr ''Firefox''),
      (''platform'', JStr ''linux64''),
      (''tags'', JList [JStr ''nightly'']),
      (''locale'', JStr ''en-US''),
      (''buildid'', JStr ''20161104030204''),
      (''buildurl'', JStr ''http://ftp.mozilla.org/firefox-52.0a1.en-US.tar.bz2''),
      (''revision'', JStr ''0123456789ab''),
      (''status'', JInt 0),
      (''test_packages_url'', JStr ''http://ftp.mozilla.org/test_packages.json''),
      (''version'', JStr ''52.0a1'')]"

definition example_build_record :: "json \<Rightarrow> json \<Rightarrow> kwargs" where
  "example_build_record locale build_url =
     [(''allowed_testruns'', JList [JStr ''functional'']),
      (''branch'', JStr ''mozilla-central''),
      (''buildid'', JStr ''20161104030204''),
      (''build_number'', JNull),
      (''build_url'', build_url),
      (''locale'', locale),
      (''platform'', JStr ''linux64''),
      (''product'', JStr ''firefox''),
      (''repository'', JStr ''http://hg.mozilla.org/mozilla-central''),
      (''revision'', JStr ''0123456789abcdef0123456789abcdef01234567''),
      (''status'', JInt 0),
      (''tags'', JList [JStr ''nightly'']),
      (''test_packages_url'', JStr ''http://ftp.mozilla.org/test_packages.json''),
      (''tree'', JStr ''mozilla-central''),
      (''version'', JStr ''52.0a1''),
      (''raw_json'',
       JDict (AList.update ''locale'' locale example_build
                @ [(''branch'', JStr ''mozilla-central''),
                   (''repo'', JStr ''http://hg.mozilla.org/mozilla-central'')]))]"

definition example_message :: message where
  "example_message = \<lparr>headers = [(''CC'', JList [])]\<rparr>"

definition example_update_record :: kwargs where
  "example_update_record =
     [(''allowed_testruns'', JList [JStr ''update'']),
      (''branch'', JStr ''mozilla-central''),
      (''buildid'', JStr ''20161103030204''),
      (''locale'', JStr ''en-US''),
      (''platform'', JStr ''win32''),
      (''product'', JStr ''firefox''),
      (''repository'', JStr ''https://hg.mozilla.org/mozilla-central''),
      (''revision'', JStr ''0123456789abcdef0123456789abcdef01234567''),
      (''target_buildid'', JStr ''20161104030204''),
      (''target_version'', JStr ''52.0a1''),
      (''tree'', JStr ''mozilla-central''),
      (''update_number'', JInt 1),
      (''raw_json'', JDict example_update)]"

definition example_release_record :: kwargs where
  "example_release_record =
     [(''allowed_testruns'', JList [JStr ''functional'']),
      (''branch'', JStr ''mozilla-central''),
      (''buildid'', JStr ''20161104030204''),
      (''locale'', JStr ''en-US''),
      (''platform'', JStr ''linux64''),
      (''product'', JStr ''Firefox''),
      (''revision'', JStr ''0123456789abcdef0123456789abcdef01234567''),
      (''tree'', JStr ''mozilla-central''),
      (''version'', JStr ''52.0a1''),
      (''raw_json'', JDict (example_release @ [(''locale'', JStr ''en-US'')]))]"


section \<open>The policy store\<close>

lemma ebind_simps [simp]:
  "ebind (Inl e) f = Inl e"
  "ebind (Inr x) f = f x"
  by (simp_all add: ebind_def)

lemma tree_entry_JStr:
  "tree_entry m (JStr s) = (case map_of m s of None \<Rightarrow> Inl (KeyError (JStr s)) | Some tc \<Rightarrow> Inr tc)"
  by (simp add: tree_entry_def)

lemma config_trees_Some: "trees cfg = Some m \<Longrightarrow> config_trees cfg = Inr m"
  by (simp add: config_trees_def)

text \<open>
  C8. When the tree mapping of the policy document is empty, \<open>is_valid_tree\<close> returns true
  for every tree name; otherwise it returns true exactly for the names that are keys of
  the mapping.
\<close>

theorem is_valid_tree_wildcard:
  assumes "trees cfg = Some m"
  shows "is_valid_tree cfg (JStr name) = Inr (m = [] \<or> name \<in> fst ` set m)"
  using assms by (auto simp: is_valid_tree_def config_trees_def py_in_def)

theorem is_valid_tree_wildcard_witness:
  "is_valid_tree \<lparr>trees = Some []\<rparr> (JStr ''mozilla-aurora'') = Inr True
   \<and> is_valid_tree
        \<lparr>trees = Some [(''mozilla-central'',
           \<lparr>products = [], platforms = [], locales = [], blacklist_locales = [], tags = []\<rparr>)]\<rparr>
        (JStr ''mozilla-aurora'') = Inr False
   \<and> is_valid_tree
        \<lparr>trees = Some [(''mozilla-central'',
           \<lparr>products = [], platforms = [], locales = [], blacklist_locales = [], tags = []\<rparr>)]\<rparr>
        (JStr ''mozilla-central'') = Inr True"
  using is_valid_tree_wildcard [of "\<lparr>trees = Some []\<rparr>" "[]" "''mozilla-aurora''"]
    is_valid_tree_wildcard [of "\<lparr>trees = Some [(''mozilla-central'',
           \<lparr>products = [], platforms = [], locales = [], blacklist_locales = [], tags = []\<rparr>)]\<rparr>"
      "[(''mozilla-central'',
           \<lparr>products = [], platforms = [], locales = [], blacklist_locales = [], tags = []\<rparr>)]"
      "''mozilla-aurora''"]
    is_valid_tree_wildcard [of "\<lparr>trees = Some [(''mozilla-central'',
           \<lparr>products = [], platforms = [], locales = [], blacklist_locales = [], tags = []\<rparr>)]\<rparr>"
      "[(''mozilla-central'',
           \<lparr>products = [], platforms = [], locales = [], blacklist_locales = [], tags = []\<rparr>)]"
      "''mozilla-central''"]
  by simp

text \<open>
  C1, as the code has it. The checks are functions of the policy document and their
  arguments. For a tree name that is not a key of the tree mapping, \<open>is_valid_product\<close>,
  \<open>is_valid_platform\<close>, \<open>is_valid_locale\<close> and \<open>has_valid_tags\<close> raise \<^verbatim>\<open>KeyError\<close> (they
  do not return false), and \<open>is_valid_tree\<close> returns whether the mapping is empty. For a
  tree name that is a key, the product, platform and locale checks return a boolean.
\<close>

theorem validity_checks_unknown_tree:
  assumes "trees cfg = Some m"
  shows "(map_of m name = None \<longrightarrow>
            is_valid_product cfg (JStr name) product = Inl (KeyError (JStr name))
          \<and> is_valid_platform cfg (JStr name) platform = Inl (KeyError (JStr name))
          \<and> is_valid_locale cfg (JStr name) locale = Inl (KeyError (JStr name))
          \<and> has_valid_tags cfg (JStr name) tgs = Inl (KeyError (JStr name))
          \<and> is_valid_tree cfg (JStr name) = Inr (m = []))
       \<and> (map_of m name = Some tc \<longrightarrow>
            is_valid_product cfg (JStr name) product
              = Inr (products tc = [] \<or> py_in product (products tc))
          \<and> is_valid_platform cfg (JStr name) platform
              = Inr (platforms tc = [] \<or> py_in platform (platforms tc))
          \<and> is_valid_locale cfg (JStr name) locale
              = Inr (\<not> py_in locale (blacklist_locales tc)
                     \<and> (locales tc = [] \<or> py_in locale (locales tc)))
          \<and> is_valid_tree cfg (JStr name) = Inr True)"
proof (intro conjI impI)
  assume n: "map_of m name = None"
  then have e: "tree_entry m (JStr name) = Inl (KeyError (JStr name))"
    by (simp add: tree_entry_JStr)
  from assms e show "is_valid_product cfg (JStr name) product = Inl (KeyError (JStr name))"
    by (simp add: is_valid_product_def config_trees_Some)
  from assms e show "is_valid_platform cfg (JStr name) platform = Inl (KeyError (JStr name))"
    by (simp add: is_valid_platform_def config_trees_Some)
  from assms e show "is_valid_locale cfg (JStr name) locale = Inl (KeyError (JStr name))"
    by (simp add: is_valid_locale_def config_trees_Some)
  from assms e show "has_valid_tags cfg (JStr name) tgs = Inl (KeyError (JStr name))"
    by (simp add: has_valid_tags_def config_trees_Some)
  from n have "name \<notin> fst ` set m"
    by (simp add: map_of_eq_None_iff)
  with assms show "is_valid_tree cfg (JStr name) = Inr (m = [])"
    by (auto simp: is_valid_tree_def config_trees_Some py_in_def)
next
  assume s: "map_of m name = Some tc"
  then have e: "tree_entry m (JStr name) = Inr tc"
    by (simp add: tree_entry_JStr)
  from assms e show "is_valid_product cfg (JStr name) product
      = Inr (products tc = [] \<or> py_in product (products tc))"
    by (simp add: is_valid_product_def config_trees_Some)
  from assms e show "is_valid_platform cfg (JStr name) platform
      = Inr (platforms tc = [] \<or> py_in platform (platforms tc))"
    by (simp add: is_valid_platform_def config_trees_Some)
  from assms e show "is_valid_locale cfg (JStr name) locale
      = Inr (\<not> py_in locale (blacklist_locales tc)
             \<and> (locales tc = [] \<or> py_in locale (locales tc)))"
    by (simp add: is_valid_locale_def config_trees_Some Let_def)
  from s have "name \<in> fst ` set m"
    by (metis map_of_eq_None_iff option.distinct(1))
  with assms show "is_valid_tree cfg (JStr name) = Inr True"
    by (auto simp: is_valid_tree_def config_trees_Some py_in_def)
qed

theorem validity_checks_unknown_tree_witness:
  "is_valid_product example_config (JStr ''mozilla-aurora'') (JStr ''firefox'')
     = Inl (KeyError (JStr ''mozilla-aurora''))
   \<and> is_valid_tree example_config (JStr ''mozilla-aurora'') = Inr False
   \<and> is_valid_product example_config (JStr ''mozilla-central'') (JStr ''firefox'') = Inr True
   \<and> is_valid_locale example_config (JStr ''mozilla-central'') (JStr ''de'') = Inr False"
  using validity_checks_unknown_tree
          [of example_config "[(''mozilla-central'', example_entry)]" "''mozilla-aurora''"
              "JStr ''firefox''" _ _ _ example_entry]
        validity_checks_unknown_tree
          [of example_config "[(''mozilla-central'', example_entry)]" "''mozilla-central''"
              "JStr ''firefox''" "JStr ''linux64''" "JStr ''de''" JNull example_entry]
  by (simp add: example_config_def example_entry_def py_in_def)

text \<open>
  C1 as stated fails: the tree \<^verbatim>\<open>mozilla-aurora\<close> is not in the example policy, and each of
  the four checks raises \<^verbatim>\<open>KeyError\<close> instead of returning false.
\<close>

theorem unknown_tree_raises_counterexample:
  "map_of [(''mozilla-central'', example_entry)] ''mozilla-aurora'' = None
   \<and> trees example_config = Some [(''mozilla-central'', example_entry)]
   \<and> is_valid_product example_config (JStr ''mozilla-aurora'') (JStr ''firefox'')
       = Inl (KeyError (JStr ''mozilla-aurora''))
   \<and> is_valid_platform example_config (JStr ''mozilla-aurora'') (JStr ''linux64'')
       = Inl (KeyError (JStr ''mozilla-aurora''))
   \<and> is_valid_locale example_config (JStr ''mozilla-aurora'') (JStr ''en-US'')
       = Inl (KeyError (JStr ''mozilla-aurora''))
   \<and> has_valid_tags example_config (JStr ''mozilla-aurora'') (JList [])
       = Inl (KeyError (JStr ''mozilla-aurora''))"
  by (simp add: example_config_def is_valid_product_def is_valid_platform_def
      is_valid_locale_def has_valid_tags_def config_trees_def tree_entry_def)

section \<open>The revision resolver\<close>

lemmas policy_defs =
  is_valid_tree_def is_valid_product_def is_valid_platform_def is_valid_locale_def
  has_valid_tags_def config_trees_def tree_entry_def py_in_def py_set_def hashable_def
  check_def

lemmas python_defs =
  getitem_def setitem_def dict_get_def py_iter_def py_contains_def py_lower_def
  lower_char_def py_replace_def py_endswith_def format_arg_def

lemmas example_defs =
  example_config_def example_entry_def example_env_def example_release_def
  example_update_def accepting_callback_def raising_callback_def empty_world_def

text \<open>
  C9. For a branch and a short revision, \<open>get_long_revision\<close> makes one request: to
  \<^verbatim>\<open>https://hg.mozilla.org/<path>/json-rev/<revision>\<close> with a timeout of 60, where the path is
  \<^verbatim>\<open>releases/<branch>\<close> for every branch but \<^verbatim>\<open>mozilla-central\<close>, which stands alone. What the
  request raises is raised; a status from 400 to 599 raises \<^verbatim>\<open>HTTPError\<close>; a body that is
  not JSON raises \<^verbatim>\<open>ValueError\<close>; otherwise the result is the value under \<^verbatim>\<open>node\<close>.
\<close>

theorem get_long_revision_resolves:
  assumes "url = ''https://hg.mozilla.org/''
                   @ (if branch = ''mozilla-central'' then ''mozilla-central''
                      else ''releases/'' @ branch)
                   @ ''/json-rev/'' @ revision"
  shows "(requests_get env url (Some 60) = Inl e \<longrightarrow>
            get_long_revision env (JStr branch) (JStr revision) = Inl e)
       \<and> (requests_get env url (Some 60) = Inr req \<and> 400 \<le> status_code req
            \<and> status_code req < 600 \<longrightarrow>
            get_long_revision env (JStr branch) (JStr revision)
              = Inl (HTTPError (status_code req)))
       \<and> (requests_get env url (Some 60) = Inr req
            \<and> \<not> (400 \<le> status_code req \<and> status_code req < 600)
            \<and> json_body req = None \<longrightarrow>
            get_long_revision env (JStr branch) (JStr revision)
              = Inl (ValueError ''No JSON object could be decoded'' []))
       \<and> (requests_get env url (Some 60) = Inr req
            \<and> \<not> (400 \<le> status_code req \<and> status_code req < 600)
            \<and> json_body req = Some j \<longrightarrow>
            get_long_revision env (JStr branch) (JStr revision) = getitem j ''node'')
       \<and> (requests_get env' url (Some 60) = requests_get env url (Some 60) \<longrightarrow>
            get_long_revision env' (JStr branch) (JStr revision)
              = get_long_revision env (JStr branch) (JStr revision))"
proof -
  have u: "get_long_revision E (JStr branch) (JStr revision) =
      ebind (requests_get E url (Some 60)) (\<lambda>req.
      ebind (raise_for_status req) (\<lambda>u.
      ebind (response_json req) (\<lambda>j. getitem j ''node'')))" for E
    using assms by (simp add: get_long_revision_def format_arg_def Let_def)
  show ?thesis
    by (simp add: u raise_for_status_def response_json_def)
qed

theorem get_long_revision_resolves_witness:
  "get_long_revision example_env (JStr ''mozilla-beta'') (JStr ''59f372c35b24'')
     = Inr (JStr ''59f372c35b2416ac84d6572d64c49227481a8a6c'')
   \<and> get_long_revision example_env (JStr ''mozilla-central'') (JStr ''0123456789ab'')
     = Inr (JStr ''0123456789abcdef0123456789abcdef01234567'')
   \<and> get_long_revision example_env (JStr ''mozilla-aurora'') (JStr ''0123456789ab'')
     = Inl (ValueError ''No JSON object could be decoded'' [])
   \<and> get_long_revision example_env (JStr ''mozilla-release'') (JStr ''0123456789ab'')
     = Inl (HTTPError 404)"
  using get_long_revision_resolves
          [of "''https://hg.mozilla.org/releases/mozilla-beta/json-rev/59f372c35b24''"
              "''mozilla-beta'' " "''59f372c35b24''" example_env _
              "\<lparr>status_code = 200, json_body = Some (JDict [(''node'',
                                JStr ''59f372c35b2416ac84d6572d64c49227481a8a6c'')])\<rparr>"
              "JDict [(''node'', JStr ''59f372c35b2416ac84d6572d64c49227481a8a6c'')]"]
        get_long_revision_resolves
          [of "''https://hg.mozilla.org/mozilla-central/json-rev/0123456789ab''"
              "''mozilla-central'' " "''0123456789ab''" example_env _
              "\<lparr>status_code = 200, json_body = Some (JDict [(''node'',
                                JStr ''0123456789abcdef0123456789abcdef01234567'')])\<rparr>"
              "JDict [(''node'', JStr ''0123456789abcdef0123456789abcdef01234567'')]"]
        get_long_revision_resolves
          [of "''https://hg.mozilla.org/releases/mozilla-aurora/json-rev/0123456789ab''"
              "''mozilla-aurora'' " "''0123456789ab''" example_env _
              "\<lparr>status_code = 200, json_body = None\<rparr>"]
        get_long_revision_resolves
          [of "''https://hg.mozilla.org/releases/mozilla-release/json-rev/0123456789ab''"
              "''mozilla-release'' " "''0123456789ab''" example_env _
              "\<lparr>status_code = 404, json_body = None\<rparr>"]
  by (simp add: example_env_def getitem_def)

section \<open>What one element adds to the trace\<close>

lemma logger_frame [simp]:
  "calls (logger e w) = calls w"
  "acks (logger e w) = acks w"
  "cb_state (logger e w) = cb_state w"
  "logged (logger e w) = logged w @ [e]"
  by (simp_all add: logger_def)

lemma element_handler_frame [simp]:
  "calls (element_handler f e w) = calls w"
  "acks (element_handler f e w) = acks w"
  "cb_state (element_handler f e w) = cb_state w"
  by (cases e; simp add: element_handler_def)+

lemma call_callback_frame:
  "calls (snd (call_callback cb props w)) = calls w @ [(props, fst (cb props (cb_state w)))]"
  "acks (snd (call_callback cb props w)) = acks w"
  "logged (snd (call_callback cb props w)) = logged w"
  by (simp_all add: call_callback_def split: prod.splits)

lemma call_callback_result:
  "fst (call_callback cb props w)
     = (case fst (cb props (cb_state w)) of None \<Rightarrow> Inr () | Some e \<Rightarrow> Inl e)"
  by (simp add: call_callback_def split: prod.splits)

lemma handle_update_calls:
  "calls (FunsizeTaskCompletedQueue_handle_update cfg cb update w)
     = calls w @ (case FunsizeTaskCompletedQueue_update_properties cfg update of
                    Inl e \<Rightarrow> []
                  | Inr props \<Rightarrow> [(props, fst (cb props (cb_state w)))])"
proof (cases "FunsizeTaskCompletedQueue_update_properties cfg update")
  case (Inl e)
  then show ?thesis by (simp add: FunsizeTaskCompletedQueue_handle_update_def)
next
  case (Inr props)
  obtain r w' where c: "call_callback cb props w = (r, w')"
    by (cases "call_callback cb props w")
  have "calls w' = calls w @ [(props, fst (cb props (cb_state w)))]"
    using call_callback_frame(1) [of cb props w] c by simp
  with Inr c show ?thesis
    by (cases r) (simp_all add: FunsizeTaskCompletedQueue_handle_update_def)
qed

lemma handle_update_acks:
  "acks (FunsizeTaskCompletedQueue_handle_update cfg cb update w) = acks w"
proof (cases "FunsizeTaskCompletedQueue_update_properties cfg update")
  case (Inl e)
  then show ?thesis by (simp add: FunsizeTaskCompletedQueue_handle_update_def)
next
  case (Inr props)
  obtain r w' where c: "call_callback cb props w = (r, w')"
    by (cases "call_callback cb props w")
  have "acks w' = acks w"
    using call_callback_frame(2) [of cb props w] c by simp
  with Inr c show ?thesis
    by (cases r) (simp_all add: FunsizeTaskCompletedQueue_handle_update_def)
qed

section \<open>Update messages\<close>

text \<open>
  C6. Applied to one update as a dictionary, \<open>FunsizeTaskCompletedQueue_on_message\<close> does
  what it does on the list of that one dictionary: the same result and the same state,
  hence the same log and the same call of the callback. That is the one turn of the loop
  on the update, which calls the callback once when the checks pass and the fields are
  there, and not at all otherwise.
\<close>

theorem funsize_dict_as_singleton:
  "FunsizeTaskCompletedQueue_on_message cfg cb (JDict u) w
     = FunsizeTaskCompletedQueue_on_message cfg cb (JList [JDict u]) w
   \<and> FunsizeTaskCompletedQueue_on_message cfg cb (JDict u) w
     = (Inr (), FunsizeTaskCompletedQueue_handle_update cfg cb (JDict u) w)
   \<and> calls (snd (FunsizeTaskCompletedQueue_on_message cfg cb (JDict u) w))
     = calls w @ (case FunsizeTaskCompletedQueue_update_properties cfg (JDict u) of
                    Inl e \<Rightarrow> []
                  | Inr props \<Rightarrow> [(props, fst (cb props (cb_state w)))])"
  by (simp add: FunsizeTaskCompletedQueue_on_message_def py_iter_def handle_update_calls)

lemma example_update_properties:
  "FunsizeTaskCompletedQueue_update_properties example_config (JDict example_update)
     = Inr [(''allowed_testruns'', JList [JStr ''update'']),
            (''branch'', JStr ''mozilla-central''),
            (''buildid'', JStr ''20161103030204''),
            (''locale'', JStr ''en-US''),
            (''platform'', JStr ''win32''),
            (''product'', JStr ''firefox''),
            (''repository'', JStr ''https://hg.mozilla.org/mozilla-central''),
            (''revision'', JStr ''0123456789abcdef0123456789abcdef01234567''),
            (''target_buildid'', JStr ''20161104030204''),
            (''target_version'', JStr ''52.0a1''),
            (''tree'', JStr ''mozilla-central''),
            (''update_number'', JInt 1),
            (''raw_json'', JDict example_update)]"
  by (simp add: FunsizeTaskCompletedQueue_update_properties_def policy_defs python_defs
      example_config_def example_entry_def example_update_def)

theorem funsize_dict_as_singleton_witness:
  "calls (snd (FunsizeTaskCompletedQueue_on_message example_config accepting_callback
                 (JList [JDict example_update]) empty_world))
     = [([(''allowed_testruns'', JList [JStr ''update'']),
          (''branch'', JStr ''mozilla-central''),
          (''buildid'', JStr ''20161103030204''),
          (''locale'', JStr ''en-US''),
          (''platform'', JStr ''win32''),
          (''product'', JStr ''firefox''),
          (''repository'', JStr ''https://hg.mozilla.org/mozilla-central''),
          (''revision'', JStr ''0123456789abcdef0123456789abcdef01234567''),
          (''target_buildid'', JStr ''20161104030204''),
          (''target_version'', JStr ''52.0a1''),
          (''tree'', JStr ''mozilla-central''),
          (''update_number'', JInt 1),
          (''raw_json'', JDict example_update)], None)]"
proof -
  note t = funsize_dict_as_singleton
             [of example_config accepting_callback example_update empty_world]
  show ?thesis
    unfolding t [THEN conjunct1, symmetric] t [THEN conjunct2, THEN conjunct2]
    by (simp add: example_update_properties accepting_callback_def empty_world_def)
qed

section \<open>Release messages\<close>

text \<open>
  C10. A release payload that passes the tree, product and platform checks and has neither
  the key \<^verbatim>\<open>locale\<close> nor the key \<^verbatim>\<open>locales\<close> makes \<open>ReleaseTaskCompletedQueue_on_message\<close>
  return without an error and leave the state as it was: no call of the callback, and
  nothing logged.
\<close>

theorem release_without_locales:
  assumes "ReleaseTaskCompletedQueue_checks cfg (JDict d) = Inr tree"
    and "map_of d ''locale'' = None"
    and "map_of d ''locales'' = None"
  shows "ReleaseTaskCompletedQueue_on_message cfg cb (JDict d) w = (Inr (), w)"
  using assms by (simp add: ReleaseTaskCompletedQueue_on_message_def py_iter_def)

lemma example_release_checks:
  "ReleaseTaskCompletedQueue_checks example_config (JDict example_release)
     = Inr (JStr ''mozilla-central'')"
  by (simp add: ReleaseTaskCompletedQueue_checks_def policy_defs python_defs
      example_config_def example_entry_def example_release_def)

theorem release_without_locales_witness:
  "ReleaseTaskCompletedQueue_checks example_config (JDict example_release)
     = Inr (JStr ''mozilla-central'')
   \<and> map_of example_release ''locale'' = None
   \<and> map_of example_release ''locales'' = None
   \<and> ReleaseTaskCompletedQueue_on_message example_config accepting_callback
        (JDict example_release) empty_world = (Inr (), empty_world)"
proof -
  have l: "map_of example_release ''locale'' = None"
    and ls: "map_of example_release ''locales'' = None"
    by (simp_all add: example_release_def)
  show ?thesis
    using release_without_locales [OF example_release_checks l ls] example_release_checks l ls
    by simp
qed

section \<open>Release messages with a list of locales\<close>

lemma handle_locale_calls:
  "map fst (calls (handle_locale cfg cb tree d locale w))
     = map fst (calls w)
       @ (case ReleaseTaskCompletedQueue_build_properties cfg tree d locale of
            Inl e \<Rightarrow> []
          | Inr props \<Rightarrow> [props])"
proof (cases "ReleaseTaskCompletedQueue_build_properties cfg tree d locale")
  case (Inl e)
  then show ?thesis by (simp add: handle_locale_def)
next
  case (Inr props)
  obtain r w' where c: "call_callback cb props w = (r, w')"
    by (cases "call_callback cb props w")
  have "calls w' = calls w @ [(props, fst (cb props (cb_state w)))]"
    using call_callback_frame(1) [of cb props w] c by simp
  with Inr c show ?thesis
    by (cases r) (simp_all add: handle_locale_def)
qed

lemma handle_locale_acks: "acks (handle_locale cfg cb tree d locale w) = acks w"
proof (cases "ReleaseTaskCompletedQueue_build_properties cfg tree d locale")
  case (Inl e)
  then show ?thesis by (simp add: handle_locale_def)
next
  case (Inr props)
  obtain r w' where c: "call_callback cb props w = (r, w')"
    by (cases "call_callback cb props w")
  have "acks w' = acks w"
    using call_callback_frame(2) [of cb props w] c by simp
  with Inr c show ?thesis
    by (cases r) (simp_all add: handle_locale_def)
qed

lemma locales_calls:
  "map fst (calls (ReleaseTaskCompletedQueue_locales cfg cb tree d ls w))
     = map fst (calls w)
       @ concat (map (\<lambda>l. case ReleaseTaskCompletedQueue_build_properties cfg tree
                               (AList.update ''locale'' l d) l of
                             Inl e \<Rightarrow> []
                           | Inr props \<Rightarrow> [props]) ls)"
proof (induction ls arbitrary: d w)
  case Nil
  show ?case by simp
next
  case (Cons l ls)
  show ?case
    by (simp add: Let_def Cons.IH handle_locale_calls)
qed

lemma locales_acks: "acks (ReleaseTaskCompletedQueue_locales cfg cb tree d ls w) = acks w"
  by (induction ls arbitrary: d w) (simp_all add: Let_def handle_locale_acks)

text \<open>The record of one locale, when the fields that \<^verbatim>\<open>_handle_locale\<close> reads are there.\<close>

lemma release_build_properties_valid:
  assumes "map_of d ''branch'' = Some branch"
    and "map_of d ''buildid'' = Some buildid"
    and "map_of d ''platform'' = Some platform"
    and "map_of d ''product'' = Some product"
    and "map_of d ''revision'' = Some revision"
    and "map_of d ''version'' = Some version"
  shows "ReleaseTaskCompletedQueue_build_properties cfg tree d l
     = (if is_valid_locale cfg tree l = Inr True
        then Inr [(''allowed_testruns'', JList [JStr ''functional'']),
                  (''branch'', branch),
                  (''buildid'', buildid),
                  (''locale'', l),
                  (''platform'', platform),
                  (''product'', product),
                  (''revision'', revision),
                  (''tree'', tree),
                  (''version'', version),
                  (''raw_json'', JDict d)]
        else (case is_valid_locale cfg tree l of
                Inl e \<Rightarrow> Inl e
              | Inr b \<Rightarrow> Inl (ValueError ''Cancel build request due to invalid locale: {}'' [l])))"
  using assms
  by (cases "is_valid_locale cfg tree l")
     (simp_all add: ReleaseTaskCompletedQueue_build_properties_def check_def getitem_def)

text \<open>
  C5. Take a release payload that passes the tree, product and platform checks, has no
  key \<^verbatim>\<open>locale\<close>, has a list under \<^verbatim>\<open>locales\<close>, and has the fields of a record. Then
  \<open>ReleaseTaskCompletedQueue_on_message\<close> returns without an error, and the callback is called
  once for every locale of the list that is valid for the tree, in the order of the list,
  and for no other: a locale that is not valid costs its own record only.
\<close>

theorem release_locales_isolated:
  assumes "ReleaseTaskCompletedQueue_checks cfg (JDict d) = Inr tree"
    and "map_of d ''locale'' = None"
    and "map_of d ''locales'' = Some (JList ls)"
    and "map_of d ''branch'' = Some branch"
    and "map_of d ''buildid'' = Some buildid"
    and "map_of d ''platform'' = Some platform"
    and "map_of d ''product'' = Some product"
    and "map_of d ''revision'' = Some revision"
    and "map_of d ''version'' = Some version"
  shows "fst (ReleaseTaskCompletedQueue_on_message cfg cb (JDict d) w) = Inr ()
       \<and> map fst (calls (snd (ReleaseTaskCompletedQueue_on_message cfg cb (JDict d) w)))
         = map fst (calls w)
           @ map (\<lambda>l. [(''allowed_testruns'', JList [JStr ''functional'']),
                       (''branch'', branch),
                       (''buildid'', buildid),
                       (''locale'', l),
                       (''platform'', platform),
                       (''product'', product),
                       (''revision'', revision),
                       (''tree'', tree),
                       (''version'', version),
                       (''raw_json'',
                        JDict (AList.update ''locale'' l (AList.delete ''locales'' d)))])
               (filter (\<lambda>l. is_valid_locale cfg tree l = Inr True) ls)"
proof -
  let ?d = "AList.delete ''locales'' d"
  have run: "ReleaseTaskCompletedQueue_on_message cfg cb (JDict d) w
      = (Inr (), ReleaseTaskCompletedQueue_locales cfg cb tree ?d ls w)"
    using assms(1-3) by (simp add: ReleaseTaskCompletedQueue_on_message_def py_iter_def)
  have one: "(case ReleaseTaskCompletedQueue_build_properties cfg tree
                     (AList.update ''locale'' l ?d) l of
                Inl e \<Rightarrow> []
              | Inr props \<Rightarrow> [props])
      = (if is_valid_locale cfg tree l = Inr True
         then [[(''allowed_testruns'', JList [JStr ''functional'']),
                (''branch'', branch),
                (''buildid'', buildid),
                (''locale'', l),
                (''platform'', platform),
                (''product'', product),
                (''revision'', revision),
                (''tree'', tree),
                (''version'', version),
                (''raw_json'', JDict (AList.update ''locale'' l ?d))]]
         else [])" for l
  proof -
    have "map_of (AList.update ''locale'' l ?d) ''branch'' = Some branch"
      "map_of (AList.update ''locale'' l ?d) ''buildid'' = Some buildid"
      "map_of (AList.update ''locale'' l ?d) ''platform'' = Some platform"
      "map_of (AList.update ''locale'' l ?d) ''product'' = Some product"
      "map_of (AList.update ''locale'' l ?d) ''revision'' = Some revision"
      "map_of (AList.update ''locale'' l ?d) ''version'' = Some version"
      using assms(4-9) by (simp_all add: update_conv' delete_conv')
    from release_build_properties_valid [OF this, of cfg tree l]
    show ?thesis
      by (cases "is_valid_locale cfg tree l") auto
  qed
  have "concat (map (\<lambda>l. case ReleaseTaskCompletedQueue_build_properties cfg tree
                               (AList.update ''locale'' l ?d) l of
                             Inl e \<Rightarrow> []
                           | Inr props \<Rightarrow> [props]) ls)
      = map (\<lambda>l. [(''allowed_testruns'', JList [JStr ''functional'']),
                       (''branch'', branch),
                       (''buildid'', buildid),
                       (''locale'', l),
                       (''platform'', platform),
                       (''product'', product),
                       (''revision'', revision),
                       (''tree'', tree),
                       (''version'', version),
                       (''raw_json'', JDict (AList.update ''locale'' l ?d))])
               (filter (\<lambda>l. is_valid_locale cfg tree l = Inr True) ls)"
    unfolding one by (induction ls) simp_all
  then show ?thesis
    by (simp add: run locales_calls)
qed

lemma example_release_locales_checks:
  "ReleaseTaskCompletedQueue_checks example_config (JDict example_release_locales)
     = Inr (JStr ''mozilla-central'')"
  by (simp add: ReleaseTaskCompletedQueue_checks_def policy_defs python_defs
      example_config_def example_entry_def example_release_def example_release_locales_def)

theorem release_locales_isolated_witness:
  "fst (ReleaseTaskCompletedQueue_on_message example_config accepting_callback
          (JDict example_release_locales) empty_world) = Inr ()
   \<and> map fst (calls (snd (ReleaseTaskCompletedQueue_on_message example_config
                            accepting_callback (JDict example_release_locales) empty_world)))
     = [[(''allowed_testruns'', JList [JStr ''functional'']),
         (''branch'', JStr ''mozilla-central''),
         (''buildid'', JStr ''20161104030204''),
         (''locale'', JStr ''en-US''),
         (''platform'', JStr ''linux64''),
         (''product'', JStr ''Firefox''),
         (''revision'', JStr ''0123456789abcdef0123456789abcdef01234567''),
         (''tree'', JStr ''mozilla-central''),
         (''version'', JStr ''52.0a1''),
         (''raw_json'', JDict (example_release @ [(''locale'', JStr ''en-US'')]))]]"
proof -
  have f: "map_of example_release_locales ''locale'' = None"
    "map_of example_release_locales ''locales''
       = Some (JList [JStr ''en-US'', JStr ''xx-INVALID''])"
    "map_of example_release_locales ''branch'' = Some (JStr ''mozilla-central'')"
    "map_of example_release_locales ''buildid'' = Some (JStr ''20161104030204'')"
    "map_of example_release_locales ''platform'' = Some (JStr ''linux64'')"
    "map_of example_release_locales ''product'' = Some (JStr ''Firefox'')"
    "map_of example_release_locales ''revision''
       = Some (JStr ''0123456789abcdef0123456789abcdef01234567'')"
    "map_of example_release_locales ''version'' = Some (JStr ''52.0a1'')"
    by (simp_all add: example_release_locales_def example_release_def)
  have v: "is_valid_locale example_config (JStr ''mozilla-central'') (JStr ''en-US'') = Inr True"
    "is_valid_locale example_config (JStr ''mozilla-central'') (JStr ''xx-INVALID'') = Inr False"
    by (simp_all add: policy_defs example_config_def example_entry_def)
  have d: "AList.update ''locale'' (JStr ''en-US'')
             (AList.delete ''locales'' example_release_locales)
           = example_release @ [(''locale'', JStr ''en-US'')]"
    by (simp add: example_release_locales_def example_release_def AList.delete_eq)
  show ?thesis
    using release_locales_isolated [OF example_release_locales_checks f,
            of accepting_callback empty_world]
    by (simp add: v d empty_world_def)
qed

section \<open>Build messages\<close>

lemma replace_Nil: "replace old new [] = (if old = [] then new else [])"
  by (simp add: replace.simps)

lemma replace_Cons:
  "replace old new (c # cs) =
     (if old = [] then new @ c # replace old new cs
      else if prefix old (c # cs) then new @ replace old new (drop (length old) (c # cs))
      else c # replace old new cs)"
  by (subst replace.simps) simp





lemma check_Inr: "check r template arg = Inr u \<longleftrightarrow> r = Inr True"
  by (cases r) (auto simp: check_def)







lemma example_build_properties:
  "NormalizedBuildQueue_build_properties example_env example_build_config (JDict example_build)
     = Inr (example_build_record (JStr ''en-US'')
              (JStr ''http://ftp.mozilla.org/firefox-52.0a1.en-US.tar.bz2''))"
  by (simp add: NormalizedBuildQueue_build_properties_def NormalizedBuildQueue_checks_def
      NormalizedBuildQueue_assign_def NormalizedBuildQueue_dict_def
      policy_defs python_defs example_build_config_def example_build_def example_env_def
      example_build_record_def get_long_revision_def raise_for_status_def response_json_def
      replace_Nil replace_Cons suffix_to_prefix)



section \<open>The dispatcher\<close>

lemma routing_key_handler_frame:
  "calls (snd (routing_key_handler e w)) = calls w"
  "acks (snd (routing_key_handler e w)) = acks w"
  by (cases e; simp add: routing_key_handler_def)+

lemma funsize_routing_key_frame:
  "calls (snd (FunsizeTaskCompletedQueue_routing_key env cfg k w)) = calls w
   \<and> acks (snd (FunsizeTaskCompletedQueue_routing_key env cfg k w)) = acks w"
  by (simp add: FunsizeTaskCompletedQueue_routing_key_def routing_key_handler_frame Let_def
      split: sum.splits option.splits prod.splits)

lemma funsize_routing_keys_frame:
  "calls (snd (FunsizeTaskCompletedQueue_routing_keys env cfg ks w)) = calls w
   \<and> acks (snd (FunsizeTaskCompletedQueue_routing_keys env cfg ks w)) = acks w"
proof (induction ks arbitrary: w)
  case Nil
  show ?case by simp
next
  case (Cons k ks)
  obtain r w' where s: "FunsizeTaskCompletedQueue_routing_key env cfg k w = (r, w')"
    by (cases "FunsizeTaskCompletedQueue_routing_key env cfg k w")
  with funsize_routing_key_frame [of env cfg k w]
  have f: "calls w' = calls w" "acks w' = acks w" by simp_all
  show ?case
    using s f Cons.IH [of w'] by (cases r) simp_all
qed

lemma funsize_preprocess_frame:
  "calls (snd (FunsizeTaskCompletedQueue_preprocess_message env cfg body message w)) = calls w
   \<and> acks (snd (FunsizeTaskCompletedQueue_preprocess_message env cfg body message w)) = acks w"
proof -
  define first where "first =
    (case message of
       None \<Rightarrow> (Inr (), w)
     | Some m \<Rightarrow>
         (case ebind (headers_CC m) py_iter of
            Inl e \<Rightarrow> (Inl e, w)
          | Inr ks \<Rightarrow> FunsizeTaskCompletedQueue_routing_keys env cfg ks w))"
  have f: "calls (snd first) = calls w \<and> acks (snd first) = acks w"
    unfolding first_def
    by (simp add: funsize_routing_keys_frame split: option.splits sum.splits)
  obtain r w1 where p: "first = (r, w1)" by (cases first)
  with f have w1: "calls w1 = calls w" "acks w1 = acks w" by simp_all
  show ?thesis
    unfolding FunsizeTaskCompletedQueue_preprocess_message_def first_def [symmetric] p
    using w1 by (cases r) (simp_all split: sum.splits)
qed

lemma release_preprocess_frame:
  "calls (snd (ReleaseTaskCompletedQueue_preprocess_message env body message w)) = calls w
   \<and> acks (snd (ReleaseTaskCompletedQueue_preprocess_message env body message w)) = acks w"
proof -
  define first where "first =
    (case message of
       None \<Rightarrow> (Inr (), w)
     | Some m \<Rightarrow>
         (case headers_CC m of
            Inl e \<Rightarrow> (Inl e, w)
          | Inr cc \<Rightarrow>
              (let w1 = logger (Log DEBUG ''CC routing keys: %s'' [cc]) w
               in case ebind (py_iter cc) (release_searches env) of
                    Inl e \<Rightarrow> (Inl e, w1)
                  | Inr found \<Rightarrow>
                      if \<not> (True \<in> set found)
                      then (Inl (ValueError
                              ''Routing keys do not match. Skipping message.'' []), w1)
                      else (Inr (), w1))))"
  have f: "calls (snd first) = calls w \<and> acks (snd first) = acks w"
    unfolding first_def
    by (simp add: Let_def split: option.splits sum.splits)
  obtain r w1 where p: "first = (r, w1)" by (cases first)
  with f have w1: "calls w1 = calls w" "acks w1 = acks w" by simp_all
  show ?thesis
    unfolding ReleaseTaskCompletedQueue_preprocess_message_def first_def [symmetric] p
    using w1 by (cases r) (simp_all split: sum.splits)
qed

lemma preprocess_frame:
  "calls (snd (preprocess_message q env cfg body message w)) = calls w
   \<and> acks (snd (preprocess_message q env cfg body message w)) = acks w"
  by (cases q) (simp_all add: funsize_preprocess_frame release_preprocess_frame)

lemma funsize_updates_acks:
  "acks (FunsizeTaskCompletedQueue_updates cfg cb us w) = acks w"
  by (induction us arbitrary: w) (simp_all add: handle_update_acks)

lemma on_message_acks: "acks (snd (on_message q env cfg cb data w)) = acks w"
proof (cases q)
  case PulseQueue
  then show ?thesis by simp
next
  case NormalizedBuildQueue
  then show ?thesis
    by (simp add: NormalizedBuildQueue_on_message_def call_callback_frame split: sum.splits)
next
  case FunsizeTaskCompletedQueue
  then show ?thesis
    by (simp add: FunsizeTaskCompletedQueue_on_message_def funsize_updates_acks Let_def
        split: sum.splits)
next
  case ReleaseTaskCompletedQueue
  then show ?thesis
    by (simp add: ReleaseTaskCompletedQueue_on_message_def handle_locale_acks locales_acks
        split: sum.splits json.splits option.splits)
qed

lemma emitted_call_raised:
  "fst (call_callback cb props w) = Inl e \<Longrightarrow> emitted (snd (call_callback cb props w)) = emitted w"
  by (auto simp: call_callback_def emitted_def split: prod.splits option.splits)

lemma on_message_raised:
  assumes "fst (on_message q env cfg cb data w) = Inl e"
  shows "emitted (snd (on_message q env cfg cb data w)) = emitted w"
proof (cases q)
  case PulseQueue
  then show ?thesis by simp
next
  case NormalizedBuildQueue
  with assms show ?thesis
    by (cases "NormalizedBuildQueue_build_properties env cfg data")
       (simp_all add: NormalizedBuildQueue_on_message_def emitted_call_raised)
next
  case FunsizeTaskCompletedQueue
  with assms show ?thesis
    by (simp add: FunsizeTaskCompletedQueue_on_message_def Let_def split: sum.splits)
next
  case ReleaseTaskCompletedQueue
  with assms show ?thesis
    by (auto simp: ReleaseTaskCompletedQueue_on_message_def
        split: sum.splits json.splits option.splits)
qed

lemma process_handler_frame [simp]:
  "calls (process_handler e w) = calls w"
  "acks (process_handler e w) = acks w"
  by (cases e; simp add: process_handler_def)+

lemma handle_message_frame:
  "acks (snd (handle_message q env cfg cb body message w)) = acks w"
  "fst (handle_message q env cfg cb body message w) = Inl e \<Longrightarrow>
   emitted (snd (handle_message q env cfg cb body message w)) = emitted w"
proof -
  let ?w0 = "logger (Log DEBUG ''Received message for routing key {}: {}''
                       [JStr (routing_key q), body]) w"
  obtain r w1 where p: "preprocess_message q env cfg body message ?w0 = (r, w1)"
    by (cases "preprocess_message q env cfg body message ?w0")
  with preprocess_frame [of q env cfg body message ?w0]
  have w1: "calls w1 = calls w" "acks w1 = acks w" by simp_all
  then have e1: "emitted w1 = emitted w" by (simp add: emitted_def)
  show "acks (snd (handle_message q env cfg cb body message w)) = acks w"
    using p w1 by (cases r) (simp_all add: handle_message_def Let_def on_message_acks)
  show "emitted (snd (handle_message q env cfg cb body message w)) = emitted w"
    if "fst (handle_message q env cfg cb body message w) = Inl e"
    using that p e1 by (cases r) (simp_all add: handle_message_def Let_def on_message_raised)
qed

text \<open>
  C2. For every class of queue, every body and every message object that is there,
  \<open>process_message\<close> returns without raising, and the messages acknowledged are those
  acknowledged before and then this message, once. When preprocessing or \<^verbatim>\<open>_on_message\<close>
  raised, no record has been emitted: the callback has returned from no call.
\<close>

theorem process_message_acks_once:
  "fst (process_message q env cfg cb body (Some m) w) = Inr ()
   \<and> acks (snd (process_message q env cfg cb body (Some m) w)) = acks w @ [m]
   \<and> (fst (handle_message q env cfg cb body (Some m) w) \<noteq> Inr ()
        \<longrightarrow> emitted (snd (process_message q env cfg cb body (Some m) w)) = emitted w)"
proof -
  obtain r w1 where h: "handle_message q env cfg cb body (Some m) w = (r, w1)"
    by (cases "handle_message q env cfg cb body (Some m) w")
  with handle_message_frame(1) [of q env cfg cb body "Some m" w]
  have a: "acks w1 = acks w" by simp
  show ?thesis
  proof (cases r)
    case (Inl e)
    with h handle_message_frame(2) [of q env cfg cb body "Some m" w e]
    have "emitted w1 = emitted w" by simp
    then have "emitted (process_handler e w1) = emitted w"
      by (simp add: emitted_def)
    with h Inl a show ?thesis
      by (simp add: process_message_def ack_def emitted_def)
  next
    case (Inr u)
    with h a show ?thesis
      by (simp add: process_message_def ack_def)
  qed
qed

theorem process_message_acks_once_witness:
  "fst (handle_message NormalizedBuildQueue example_env example_config accepting_callback
          (JDict example_update) (Some example_message) empty_world)
     = Inl (KeyError (JStr ''tree''))
   \<and> fst (process_message NormalizedBuildQueue example_env example_config accepting_callback
            (JDict example_update) (Some example_message) empty_world) = Inr ()
   \<and> acks (snd (process_message NormalizedBuildQueue example_env example_config
                  accepting_callback (JDict example_update) (Some example_message)
                  empty_world)) = [example_message]
   \<and> emitted (snd (process_message NormalizedBuildQueue example_env example_config
                     accepting_callback (JDict example_update) (Some example_message)
                     empty_world)) = []"
proof -
  have h: "fst (handle_message NormalizedBuildQueue example_env example_config
                  accepting_callback (JDict example_update) (Some example_message) empty_world)
      = Inl (KeyError (JStr ''tree''))"
    by (simp add: handle_message_def NormalizedBuildQueue_preprocess_message_def
        NormalizedBuildQueue_on_message_def NormalizedBuildQueue_build_properties_def
        NormalizedBuildQueue_checks_def dict_get_def getitem_def example_update_def Let_def)
  from process_message_acks_once
         [of NormalizedBuildQueue example_env example_config accepting_callback
             "JDict example_update" example_message empty_world] h
  show ?thesis
    by (simp add: empty_world_def emitted_def)
qed

section \<open>Exceptions of the callback\<close>

text \<open>
  C4 as stated fails. The callback raises \<^verbatim>\<open>TypeError\<close> on the record of the example
  update; \<^verbatim>\<open>_on_message\<close> of the update queue returns all the same, with the exception in
  the log. It raises on the record of the example build; \<open>process_message\<close> returns.
\<close>

theorem callback_error_propagates_counterexample:
  "fst (FunsizeTaskCompletedQueue_on_message example_config raising_callback
          (JDict example_update) empty_world) = Inr ()
   \<and> map snd (calls (snd (FunsizeTaskCompletedQueue_on_message example_config
                            raising_callback (JDict example_update) empty_world)))
      = [Some TypeError]
   \<and> logged (snd (FunsizeTaskCompletedQueue_on_message example_config raising_callback
                    (JDict example_update) empty_world))
      = [LogException ''Failed to process update message.'' TypeError]
   \<and> map snd (calls (snd (process_message NormalizedBuildQueue example_env
                            example_build_config raising_callback (JDict example_build)
                            (Some example_message) empty_world)))
      = [Some TypeError]
   \<and> fst (process_message NormalizedBuildQueue example_env example_build_config
             raising_callback (JDict example_build) (Some example_message) empty_world)
      = Inr ()"
  by (simp add: FunsizeTaskCompletedQueue_on_message_def py_iter_def
      FunsizeTaskCompletedQueue_handle_update_def example_update_properties
      call_callback_def raising_callback_def element_handler_def logger_def empty_world_def
      process_message_def handle_message_def NormalizedBuildQueue_preprocess_message_def
      dict_get_def example_build_def [THEN arg_cong, of "\<lambda>d. map_of d ''payload''"]
      NormalizedBuildQueue_on_message_def example_build_properties
      process_handler_def ack_def)

lemma funsize_updates_calls:
  "map fst (calls (FunsizeTaskCompletedQueue_updates cfg cb us w))
     = map fst (calls w)
       @ concat (map (\<lambda>u. case FunsizeTaskCompletedQueue_update_properties cfg u of
                             Inl e \<Rightarrow> []
                           | Inr props \<Rightarrow> [props]) us)"
proof (induction us arbitrary: w)
  case Nil
  show ?case by simp
next
  case (Cons u us)
  show ?case
    by (cases "FunsizeTaskCompletedQueue_update_properties cfg u")
       (simp_all add: Cons.IH handle_update_calls)
qed

lemma call_callback_raises:
  assumes "fst (cb props (cb_state w)) = Some e"
  shows "call_callback cb props w
     = (Inl e, w\<lparr>cb_state := snd (cb props (cb_state w)),
                  calls := calls w @ [(props, Some e)]\<rparr>)"
  using assms by (cases "cb props (cb_state w)") (simp add: call_callback_def)

lemma process_message_after_preprocess:
  assumes "preprocess_message q env cfg body message
             (logger (Log DEBUG ''Received message for routing key {}: {}''
                        [JStr (routing_key q), body]) w0) = (Inr data, w)"
  shows "process_message q env cfg cb body message w0
     = (case on_message q env cfg cb data w of
          (Inl e, w1) \<Rightarrow> (Inr (), ack message (process_handler e w1))
        | (Inr u, w1) \<Rightarrow> (Inr (), ack message w1))"
  using assms by (simp add: process_message_def handle_message_def Let_def)

text \<open>
  C4, as the code has it. Let the callback raise \<open>e\<close> on the record \<open>props\<close> in the state
  \<open>w\<close> that preprocessing has left. What follows is the same in every class of queue: the
  call is in the trace, the exception is caught, one line is logged for it, and
  \<open>process_message\<close> returns.
  \<^item> Update queue, a list whose first update has the record \<open>props\<close>: the handlers of the
    element log the exception, \<^verbatim>\<open>_on_message\<close> goes on with the rest of the list from that
    state and returns; the callback is handed the record of every update of the rest
    that passes its checks. The same for a single dictionary.
  \<^item> Release queue, a list of locales whose first locale has the record \<open>props\<close>: likewise,
    with the rest of the locales. The same for a single \<^verbatim>\<open>locale\<close>.
  \<^item> Build queue: the exception leaves \<^verbatim>\<open>_on_message\<close>; \<open>process_message\<close> catches it, logs
    it, acknowledges and returns.
\<close>

theorem callback_error_is_caught:
  assumes "fst (cb props (cb_state w)) = Some e"
    and "preprocess_message q env cfg body message
           (logger (Log DEBUG ''Received message for routing key {}: {}''
                      [JStr (routing_key q), body]) w0) = (Inr data, w)"
  shows
    "let called = w\<lparr>cb_state := snd (cb props (cb_state w)),
                     calls := calls w @ [(props, Some e)]\<rparr>;
         caught = (\<lambda>failure.
                     called\<lparr>logged := logged w
                        @ [case e of ValueError msg args \<Rightarrow> Log INFO msg args
                                   | _ \<Rightarrow> LogException failure e]\<rparr>);
         dispatched = called\<lparr>logged := logged w
                        @ [case e of ValueError msg args \<Rightarrow> Log DEBUG msg args
                                   | _ \<Rightarrow> LogException
                                           ''Failed to process Mozilla Pulse message.'' e]\<rparr>
     in (q = FunsizeTaskCompletedQueue \<and> data = JList (update # rest)
           \<and> FunsizeTaskCompletedQueue_update_properties cfg update = Inr props \<longrightarrow>
           on_message q env cfg cb data w
             = (Inr (), FunsizeTaskCompletedQueue_updates cfg cb rest
                          (caught ''Failed to process update message.''))
         \<and> map fst (calls (snd (on_message q env cfg cb data w)))
             = map fst (calls w) @ props
                 # concat (map (\<lambda>u. case FunsizeTaskCompletedQueue_update_properties cfg u of
                                       Inl e' \<Rightarrow> []
                                     | Inr p \<Rightarrow> [p]) rest)
         \<and> process_message q env cfg cb body message w0
             = (Inr (), ack message
                          (FunsizeTaskCompletedQueue_updates cfg cb rest
                             (caught ''Failed to process update message.''))))
      \<and> (q = FunsizeTaskCompletedQueue \<and> data = JDict d
           \<and> FunsizeTaskCompletedQueue_update_properties cfg data = Inr props \<longrightarrow>
           on_message q env cfg cb data w
             = (Inr (), caught ''Failed to process update message.'')
         \<and> process_message q env cfg cb body message w0
             = (Inr (), ack message (caught ''Failed to process update message.'')))
      \<and> (q = ReleaseTaskCompletedQueue \<and> data = JDict d
           \<and> ReleaseTaskCompletedQueue_checks cfg data = Inr tree
           \<and> map_of d ''locale'' = None
           \<and> map_of d ''locales'' = Some (JList (loc # rest))
           \<and> ReleaseTaskCompletedQueue_build_properties cfg tree
                (AList.update ''locale'' loc (AList.delete ''locales'' d)) loc
              = Inr props \<longrightarrow>
           on_message q env cfg cb data w
             = (Inr (), ReleaseTaskCompletedQueue_locales cfg cb tree
                          (AList.update ''locale'' loc (AList.delete ''locales'' d)) rest
                          (caught ''Failed to process beetmover message.''))
         \<and> map fst (calls (snd (on_message q env cfg cb data w)))
             = map fst (calls w) @ props
                 # concat (map (\<lambda>l. case ReleaseTaskCompletedQueue_build_properties cfg tree
                                           (AList.update ''locale'' l
                                              (AList.delete ''locales'' d)) l of
                                       Inl e' \<Rightarrow> []
                                     | Inr p \<Rightarrow> [p]) rest)
         \<and> process_message q env cfg cb body message w0
             = (Inr (), ack message
                          (ReleaseTaskCompletedQueue_locales cfg cb tree
                             (AList.update ''locale'' loc (AList.delete ''locales'' d)) rest
                             (caught ''Failed to process beetmover message.''))))
      \<and> (q = ReleaseTaskCompletedQueue \<and> data = JDict d
           \<and> ReleaseTaskCompletedQueue_checks cfg data = Inr tree
           \<and> map_of d ''locale'' = Some loc
           \<and> ReleaseTaskCompletedQueue_build_properties cfg tree d loc = Inr props \<longrightarrow>
           on_message q env cfg cb data w
             = (Inr (), caught ''Failed to process beetmover message.'')
         \<and> process_message q env cfg cb body message w0
             = (Inr (), ack message (caught ''Failed to process beetmover message.'')))
      \<and> (q = NormalizedBuildQueue
           \<and> NormalizedBuildQueue_build_properties env cfg data = Inr props \<longrightarrow>
           on_message q env cfg cb data w = (Inl e, called)
         \<and> process_message q env cfg cb body message w0
             = (Inr (), ack message dispatched))"
proof -
  let ?called = "w\<lparr>cb_state := snd (cb props (cb_state w)),
                    calls := calls w @ [(props, Some e)]\<rparr>"
  note c = call_callback_raises [of cb props w e, OF assms(1)]
  note pm = process_message_after_preprocess [OF assms(2), of cb]
  have eh: "element_handler failure e ?called
      = ?called\<lparr>logged := logged w
           @ [case e of ValueError msg args \<Rightarrow> Log INFO msg args
                      | _ \<Rightarrow> LogException failure e]\<rparr>" for failure
    by (cases e) (simp_all add: element_handler_def logger_def)
  have ph: "process_handler e ?called
      = ?called\<lparr>logged := logged w
           @ [case e of ValueError msg args \<Rightarrow> Log DEBUG msg args
                      | _ \<Rightarrow> LogException ''Failed to process Mozilla Pulse message.'' e]\<rparr>"
    by (cases e) (simp_all add: process_handler_def logger_def)
  have hu: "FunsizeTaskCompletedQueue_update_properties cfg u = Inr props \<Longrightarrow>
      FunsizeTaskCompletedQueue_handle_update cfg cb u w
        = element_handler ''Failed to process update message.'' e ?called" for u
    by (simp add: FunsizeTaskCompletedQueue_handle_update_def c)
  have hl: "ReleaseTaskCompletedQueue_build_properties cfg tree d' l = Inr props \<Longrightarrow>
      handle_locale cfg cb tree d' l w
        = element_handler ''Failed to process beetmover message.'' e ?called" for d' l
    by (simp add: handle_locale_def c)
  have f1: "FunsizeTaskCompletedQueue_update_properties cfg update = Inr props \<Longrightarrow>
      FunsizeTaskCompletedQueue_on_message cfg cb (JList (update # rest)) w
        = (Inr (), FunsizeTaskCompletedQueue_updates cfg cb rest
                     (element_handler ''Failed to process update message.'' e ?called))"
    by (simp add: FunsizeTaskCompletedQueue_on_message_def py_iter_def hu)
  have f1c: "FunsizeTaskCompletedQueue_update_properties cfg update = Inr props \<Longrightarrow>
      map fst (calls (snd (FunsizeTaskCompletedQueue_on_message cfg cb
                             (JList (update # rest)) w)))
        = map fst (calls w) @ props
            # concat (map (\<lambda>u. case FunsizeTaskCompletedQueue_update_properties cfg u of
                                  Inl e' \<Rightarrow> []
                                | Inr p \<Rightarrow> [p]) rest)"
    by (simp add: f1 funsize_updates_calls)
  have f0: "FunsizeTaskCompletedQueue_update_properties cfg (JDict d) = Inr props \<Longrightarrow>
      FunsizeTaskCompletedQueue_on_message cfg cb (JDict d) w
        = (Inr (), element_handler ''Failed to process update message.'' e ?called)"
    by (simp add: FunsizeTaskCompletedQueue_on_message_def py_iter_def hu)
  have r1: "ReleaseTaskCompletedQueue_checks cfg (JDict d) = Inr tree \<Longrightarrow>
      map_of d ''locale'' = None \<Longrightarrow>
      map_of d ''locales'' = Some (JList (loc # rest)) \<Longrightarrow>
      ReleaseTaskCompletedQueue_build_properties cfg tree
        (AList.update ''locale'' loc (AList.delete ''locales'' d)) loc = Inr props \<Longrightarrow>
      ReleaseTaskCompletedQueue_on_message cfg cb (JDict d) w
        = (Inr (), ReleaseTaskCompletedQueue_locales cfg cb tree
                     (AList.update ''locale'' loc (AList.delete ''locales'' d)) rest
                     (element_handler ''Failed to process beetmover message.'' e ?called))"
    by (simp add: ReleaseTaskCompletedQueue_on_message_def py_iter_def hl Let_def)
  have r1c: "ReleaseTaskCompletedQueue_checks cfg (JDict d) = Inr tree \<Longrightarrow>
      map_of d ''locale'' = None \<Longrightarrow>
      map_of d ''locales'' = Some (JList (loc # rest)) \<Longrightarrow>
      ReleaseTaskCompletedQueue_build_properties cfg tree
        (AList.update ''locale'' loc (AList.delete ''locales'' d)) loc = Inr props \<Longrightarrow>
      map fst (calls (snd (ReleaseTaskCompletedQueue_on_message cfg cb (JDict d) w)))
        = map fst (calls w) @ props
            # concat (map (\<lambda>l. case ReleaseTaskCompletedQueue_build_properties cfg tree
                                      (AList.update ''locale'' l
                                         (AList.delete ''locales'' d)) l of
                                  Inl e' \<Rightarrow> []
                                | Inr p \<Rightarrow> [p]) rest)"
    by (simp add: r1 locales_calls)
  have r0: "ReleaseTaskCompletedQueue_checks cfg (JDict d) = Inr tree \<Longrightarrow>
      map_of d ''locale'' = Some loc \<Longrightarrow>
      ReleaseTaskCompletedQueue_build_properties cfg tree d loc = Inr props \<Longrightarrow>
      ReleaseTaskCompletedQueue_on_message cfg cb (JDict d) w
        = (Inr (), element_handler ''Failed to process beetmover message.'' e ?called)"
    by (simp add: ReleaseTaskCompletedQueue_on_message_def hl)
  have b: "NormalizedBuildQueue_build_properties env cfg data = Inr props \<Longrightarrow>
      NormalizedBuildQueue_on_message env cfg cb data w = (Inl e, ?called)"
    by (simp add: NormalizedBuildQueue_on_message_def c)
  show ?thesis
    unfolding Let_def
    apply (insert pm)
    apply (intro conjI impI; elim conjE;
        simp add: f1 f0 r1 r0 b eh ph funsize_updates_calls locales_calls)
    done
qed

lemma example_update_record:
  "FunsizeTaskCompletedQueue_update_properties example_config (JDict example_update)
     = Inr example_update_record"
  by (simp add: example_update_properties example_update_record_def)

lemma example_release_record:
  "ReleaseTaskCompletedQueue_build_properties example_config (JStr ''mozilla-central'')
     (AList.update ''locale'' (JStr ''en-US'')
        (AList.delete ''locales'' example_release_locales)) (JStr ''en-US'')
     = Inr example_release_record"
  by (simp add: ReleaseTaskCompletedQueue_build_properties_def policy_defs getitem_def
      example_config_def example_entry_def example_release_locales_def example_release_def
      example_release_record_def AList.delete_eq)

theorem callback_error_is_caught_witness:
  "process_message NormalizedBuildQueue example_env example_build_config raising_callback
     (JDict example_build) (Some example_message) empty_world
     = (Inr (),
        \<lparr>cb_state = (),
         calls = [(example_build_record (JStr ''en-US'')
                     (JStr ''http://ftp.mozilla.org/firefox-52.0a1.en-US.tar.bz2''),
                   Some TypeError)],
         logged = [Log DEBUG ''Received message for routing key {}: {}''
                     [JStr ''build.#'', JDict example_build],
                   LogException ''Failed to process Mozilla Pulse message.'' TypeError],
         acks = [example_message]\<rparr>)
   \<and> process_message FunsizeTaskCompletedQueue example_env example_config raising_callback
       (JList [JDict example_update, JDict example_update]) None empty_world
     = (Inr (),
        \<lparr>cb_state = (),
         calls = [(example_update_record, Some TypeError),
                  (example_update_record, Some TypeError)],
         logged = [Log DEBUG ''Received message for routing key {}: {}''
                     [JStr ''#.funsize-balrog.#'',
                      JList [JDict example_update, JDict example_update]],
                   LogException ''Failed to process update message.'' TypeError,
                   LogException ''Failed to process update message.'' TypeError],
         acks = []\<rparr>)
   \<and> process_message ReleaseTaskCompletedQueue example_env example_config raising_callback
       (JDict example_release_locales) None empty_world
     = (Inr (),
        \<lparr>cb_state = (),
         calls = [(example_release_record, Some TypeError)],
         logged = [Log DEBUG ''Received message for routing key {}: {}''
                     [JStr ''route.index.releases.v1.#'', JDict example_release_locales],
                   LogException ''Failed to process beetmover message.'' TypeError,
                   Log INFO ''Cancel build request due to invalid locale: {}''
                     [JStr ''xx-INVALID'']],
         acks = []\<rparr>)"
proof -
  let ?wb = "logger (Log DEBUG ''Received message for routing key {}: {}''
                       [JStr (routing_key NormalizedBuildQueue), JDict example_build])
               empty_world"
  let ?bf = "JList [JDict example_update, JDict example_update]"
  let ?wf = "logger (Log DEBUG ''Received message for routing key {}: {}''
                       [JStr (routing_key FunsizeTaskCompletedQueue), ?bf])
               empty_world"
  let ?wr = "logger (Log DEBUG ''Received message for routing key {}: {}''
                       [JStr (routing_key ReleaseTaskCompletedQueue),
                        JDict example_release_locales])
               empty_world"
  have raises: "fst (raising_callback props (cb_state w)) = Some TypeError"
    for props and w :: "unit world"
    by (simp add: raising_callback_def)
  have pb: "preprocess_message NormalizedBuildQueue example_env example_build_config
              (JDict example_build) (Some example_message) ?wb
            = (Inr (JDict example_build), ?wb)"
    by (simp add: NormalizedBuildQueue_preprocess_message_def dict_get_def example_build_def)
  have pf: "preprocess_message FunsizeTaskCompletedQueue example_env example_config
              ?bf None ?wf = (Inr ?bf, ?wf)"
    by (simp add: FunsizeTaskCompletedQueue_preprocess_message_def py_contains_def)
  have pr: "preprocess_message ReleaseTaskCompletedQueue example_env example_config
              (JDict example_release_locales) None ?wr
            = (Inr (JDict example_release_locales), ?wr)"
    by (simp add: ReleaseTaskCompletedQueue_preprocess_message_def py_contains_def
        example_release_locales_def example_release_def)
  have ls: "map_of example_release_locales ''locale'' = None"
    "map_of example_release_locales ''locales''
       = Some (JList [JStr ''en-US'', JStr ''xx-INVALID''])"
    by (simp_all add: example_release_locales_def example_release_def)
  have inv: "ReleaseTaskCompletedQueue_build_properties example_config
               (JStr ''mozilla-central'')
               (AList.update ''locale'' (JStr ''xx-INVALID'')
                  (AList.update ''locale'' (JStr ''en-US'')
                     (AList.delete ''locales'' example_release_locales)))
               (JStr ''xx-INVALID'')
             = Inl (ValueError ''Cancel build request due to invalid locale: {}''
                      [JStr ''xx-INVALID''])"
    by (simp add: ReleaseTaskCompletedQueue_build_properties_def policy_defs
        example_config_def example_entry_def)
  note b = callback_error_is_caught
             [where cb = raising_callback and e = TypeError and w = ?wb
                and props = "example_build_record (JStr ''en-US'')
                               (JStr ''http://ftp.mozilla.org/firefox-52.0a1.en-US.tar.bz2'')"
                and q = NormalizedBuildQueue and env = example_env
                and cfg = example_build_config and body = "JDict example_build"
                and message = "Some example_message" and ?w0.0 = empty_world
                and data = "JDict example_build",
              OF raises pb, unfolded Let_def]
  note f = callback_error_is_caught
             [where cb = raising_callback and e = TypeError and w = ?wf
                and props = example_update_record
                and q = FunsizeTaskCompletedQueue and env = example_env
                and cfg = example_config and body = ?bf
                and message = None and ?w0.0 = empty_world
                and data = ?bf and update = "JDict example_update"
                and rest = "[JDict example_update]",
              OF raises pf, unfolded Let_def]
  note r = callback_error_is_caught
             [where cb = raising_callback and e = TypeError and w = ?wr
                and props = example_release_record
                and q = ReleaseTaskCompletedQueue and env = example_env
                and cfg = example_config and body = "JDict example_release_locales"
                and message = None and ?w0.0 = empty_world
                and data = "JDict example_release_locales"
                and d = example_release_locales and tree = "JStr ''mozilla-central''"
                and loc = "JStr ''en-US''" and rest = "[JStr ''xx-INVALID'']",
              OF raises pr, unfolded Let_def]
  have 1: "process_message NormalizedBuildQueue example_env example_build_config
             raising_callback (JDict example_build) (Some example_message) empty_world
     = (Inr (),
        \<lparr>cb_state = (),
         calls = [(example_build_record (JStr ''en-US'')
                     (JStr ''http://ftp.mozilla.org/firefox-52.0a1.en-US.tar.bz2''),
                   Some TypeError)],
         logged = [Log DEBUG ''Received message for routing key {}: {}''
                     [JStr ''build.#'', JDict example_build],
                   LogException ''Failed to process Mozilla Pulse message.'' TypeError],
         acks = [example_message]\<rparr>)"
    using b example_build_properties
    by (simp add: ack_def logger_def empty_world_def raising_callback_def)
  have 2: "process_message FunsizeTaskCompletedQueue example_env example_config
             raising_callback ?bf None empty_world
     = (Inr (),
        \<lparr>cb_state = (),
         calls = [(example_update_record, Some TypeError),
                  (example_update_record, Some TypeError)],
         logged = [Log DEBUG ''Received message for routing key {}: {}''
                     [JStr ''#.funsize-balrog.#'', ?bf],
                   LogException ''Failed to process update message.'' TypeError,
                   LogException ''Failed to process update message.'' TypeError],
         acks = []\<rparr>)"
    using f example_update_record
    by (simp add: ack_def logger_def empty_world_def raising_callback_def
        FunsizeTaskCompletedQueue_handle_update_def call_callback_def element_handler_def)
  have 3: "process_message ReleaseTaskCompletedQueue example_env example_config
             raising_callback (JDict example_release_locales) None empty_world
     = (Inr (),
        \<lparr>cb_state = (),
         calls = [(example_release_record, Some TypeError)],
         logged = [Log DEBUG ''Received message for routing key {}: {}''
                     [JStr ''route.index.releases.v1.#'', JDict example_release_locales],
                   LogException ''Failed to process beetmover message.'' TypeError,
                   Log INFO ''Cancel build request due to invalid locale: {}''
                     [JStr ''xx-INVALID'']],
         acks = []\<rparr>)"
    using r example_release_record example_release_locales_checks ls inv
    by (simp add: ack_def logger_def empty_world_def raising_callback_def
        handle_locale_def element_handler_def Let_def)
  from 1 2 3 show ?thesis by simp
qed

section \<open>The payload in the record\<close>













end
